theory Spec2Isabelle
  imports Complex_Main
begin

section \<open>Data model\<close>

text \<open>
  The bunch engine of \<^verbatim>\<open>Project/Bunch.py\<close> and the driver loop of
  \<^verbatim>\<open>Project/RecordSynchrocyclotron.py\<close>.

  Python floats are modelled as real numbers: rounding, overflow and the bit patterns of
  floats are outside the model. NumPy vectors of three components are triples.
  Particles are objects that several lists may refer to, so they live in an explicit
  store: a heap is a list of particle states and an address is an index into it.
  A new object is allocated at the end of the heap.
\<close>

type_synonym vec3 = "real \<times> real \<times> real"

type_synonym addr = nat

text \<open>
  The attributes of a particle object that the bunch code reads or writes. The class of
  the particles is not part of the two source files; whatever else a particle carries is
  the extension of the record.
\<close>

record ChargedParticle =
  name :: string
  position :: vec3
  velocity :: vec3

type_synonym 'a particle = "'a ChargedParticle_scheme"

type_synonym 'a heap = "'a particle list"

text \<open>The exceptions that the modelled code can raise.\<close>

datatype error = TypeError | AttributeError | ValueError | ZeroDivisionError | StepFailure

text \<open>
  A bunch object. \<open>cls\<close> is the class of the object and \<open>bases\<close> are the classes it
  inherits from. The attributes \<open>average_kinetic_energy\<close> and \<open>bunchName\<close> can be
  absent: the first is deleted by \<^verbatim>\<open>__add__\<close>, the second is never set by
  \<^verbatim>\<open>Bunch.__init__\<close>. The attribute \<open>bunch\<close> is the list of member objects.
\<close>

record Bunch =
  cls :: string
  bases :: "string list"
  average_kinetic_energy :: "real option"
  bunch_number :: int
  positionSigma :: real
  bunch :: "addr list"
  bunchName :: "string option"

text \<open>The two attributes of the field object that the bunch reads.\<close>

record EMField =
  electricLowerBound :: real
  electricUpperBound :: real

text \<open>
  The four single-step integrators of a particle. They are methods of the particle
  class, which is not in the source files, so they are parameters of the model. Each one
  maps the state of the particle it is called on to its new state, or fails.
\<close>

record ('a, 'f) integrators =
  euler :: "'a particle \<Rightarrow> real \<Rightarrow> error + 'a particle"
  eulerCromer :: "'a particle \<Rightarrow> real \<Rightarrow> error + 'a particle"
  velocityVerlet :: "'a particle \<Rightarrow> real \<Rightarrow> 'f \<Rightarrow> real \<Rightarrow> error + 'a particle"
  RungeKutta4 :: "'a particle \<Rightarrow> real \<Rightarrow> 'f \<Rightarrow> real \<Rightarrow> error + 'a particle"

section \<open>Bunch.adaptiveStep\<close>

text \<open>Python's \<^verbatim>\<open>any\<close> on a list of truth values.\<close>

primrec py_any :: "bool list \<Rightarrow> bool" where
  "py_any [] = False"
| "py_any (b # bs) = (if b then True else py_any bs)"

definition adaptiveStep :: "'a heap \<Rightarrow> Bunch \<Rightarrow> real \<Rightarrow> 'f EMField_scheme \<Rightarrow> real" where
  "adaptiveStep h self deltaT fld =
     (let lowerBound = electricLowerBound fld - 0.1 * \<bar>electricLowerBound fld\<bar>;
          upperBound = electricUpperBound fld + 0.1 * \<bar>electricUpperBound fld\<bar>;
          electric_influence =
            map (\<lambda>i. lowerBound \<le> fst (position (h ! i)) \<and> fst (position (h ! i)) \<le> upperBound)
              (bunch self)
      in if py_any electric_influence then deltaT * 0.01 else deltaT)"

section \<open>Bunch.update\<close>

text \<open>
  One \<^verbatim>\<open>for particle in self.bunch\<close> loop of \<^verbatim>\<open>update\<close>: the integrator is
  applied to the members in order and each new state is written back to the member's
  own cell. A failing step ends the loop; the members stepped before it stay stepped.
\<close>

primrec step_all ::
  "('a particle \<Rightarrow> error + 'a particle) \<Rightarrow> addr list \<Rightarrow> 'a heap \<Rightarrow> 'a heap \<times> error option" where
  "step_all f [] h = (h, None)"
| "step_all f (p # ps) h =
     (case f (h ! p) of
        Inl e \<Rightarrow> (h, Some e)
      | Inr q \<Rightarrow> step_all f ps (h[p := q]))"

definition invalid_set_method_warning :: string where
  "invalid_set_method_warning =
     ''Invalid set_method parameter, defaulting to fourth order Runge-Kutta''"

text \<open>
  The state that \<^verbatim>\<open>update\<close> changes is the heap and the logger, here the list of
  warnings logged so far. The result is the new heap, the new log and the exception that
  escaped, if any.
\<close>

definition update ::
  "('a, 'f) integrators \<Rightarrow> 'a heap \<Rightarrow> string list \<Rightarrow> Bunch \<Rightarrow> real \<Rightarrow> 'f \<Rightarrow> real \<Rightarrow> int
     \<Rightarrow> 'a heap \<times> string list \<times> error option" where
  "update I h logged self deltaT fld time set_method =
     (if set_method = 0 then
        (let (h', e) = step_all (\<lambda>particle. euler I particle deltaT) (bunch self) h
         in (h', logged, e))
      else if set_method = 1 then
        (let (h', e) = step_all (\<lambda>particle. eulerCromer I particle deltaT) (bunch self) h
         in (h', logged, e))
      else if set_method = 2 then
        (let (h', e) = step_all (\<lambda>particle. velocityVerlet I particle deltaT fld time) (bunch self) h
         in (h', logged, e))
      else if set_method = 3 then
        (let (h', e) = step_all (\<lambda>particle. RungeKutta4 I particle deltaT fld time) (bunch self) h
         in (h', logged, e))
      else
        (let logged' = logged @ [invalid_set_method_warning];
             (h', e) = step_all (\<lambda>particle. RungeKutta4 I particle deltaT fld time) (bunch self) h
         in (h', logged', e)))"

section \<open>Bunch.__add__\<close>

text \<open>
  \<^verbatim>\<open>isinstance(other, cls)\<close>: the class of \<open>other\<close> is \<open>cls\<close> or inherits from it.
\<close>

definition isinstance :: "Bunch \<Rightarrow> string \<Rightarrow> bool" where
  "isinstance other c = (cls other = c \<or> c \<in> set (bases other))"

text \<open>
  \<^verbatim>\<open>copy.deepcopy\<close> of a bunch: every member object reached gets a fresh copy, and
  an object reached a second time is represented by the copy made the first time (the
  memo of \<^verbatim>\<open>deepcopy\<close>). The attributes of a particle are copied by value. The
  result is the extended heap and the addresses of the copies, in member order.
\<close>

fun deepcopy_members ::
  "(addr \<times> addr) list \<Rightarrow> 'a heap \<Rightarrow> addr list \<Rightarrow> 'a heap \<times> addr list" where
  "deepcopy_members memo h [] = (h, [])"
| "deepcopy_members memo h (p # ps) =
     (case map_of memo p of
        Some q \<Rightarrow> (let (h', qs) = deepcopy_members memo h ps in (h', q # qs))
      | None \<Rightarrow>
          (let q = length h;
               (h', qs) = deepcopy_members ((p, q) # memo) (h @ [h ! p]) ps
           in (h', q # qs)))"

definition deepcopy :: "'a heap \<Rightarrow> Bunch \<Rightarrow> 'a heap \<times> Bunch" where
  "deepcopy h self = (let (h', qs) = deepcopy_members [] h (bunch self) in (h', self\<lparr>bunch := qs\<rparr>))"

text \<open>
  \<^verbatim>\<open>list.index\<close>: the position of the first element equal to \<open>x\<close>. Particles define
  no equality of their own in the source files, so two members are equal when they are
  the same object. Both callers look up an element they have just taken from the list,
  so the \<^verbatim>\<open>ValueError\<close> of a missing element cannot arise; the model returns the
  length of the list there.
\<close>

primrec index :: "'b list \<Rightarrow> 'b \<Rightarrow> nat" where
  "index [] x = 0"
| "index (y # ys) x = (if y = x then 0 else Suc (index ys x))"

text \<open>\<^verbatim>\<open>str\<close> of a non-negative integer: its decimal digits.\<close>

definition digit :: "nat \<Rightarrow> char" where
  "digit d = ''0123456789'' ! d"

function str :: "nat \<Rightarrow> string" where
  "str n = (if n < 10 then [digit n] else str (n div 10) @ [digit (n mod 10)])"
  by pat_completeness auto
termination
  by (relation "measure (\<lambda>n. n)") auto

declare str.simps [simp del]

text \<open>
  The renaming loop of \<^verbatim>\<open>__add__\<close>. \<open>members\<close> is \<^verbatim>\<open>new_bunch.bunch\<close>, the
  second argument of the loop is the part of it that is still to be visited. The body
  of the loop gives the particle the name \<^verbatim>\<open>particle.name[:-1]\<close> followed by its
  position in the list, counted from one.
\<close>

definition renamed :: "addr list \<Rightarrow> 'a heap \<Rightarrow> addr \<Rightarrow> 'a particle" where
  "renamed members h particle =
     (let new_name = butlast (name (h ! particle)) @ str (index members particle + 1)
      in (h ! particle)\<lparr>name := new_name\<rparr>)"

primrec rename_loop :: "addr list \<Rightarrow> addr list \<Rightarrow> 'a heap \<Rightarrow> 'a heap" where
  "rename_loop members [] h = h"
| "rename_loop members (particle # rest) h =
     rename_loop members rest (h[particle := renamed members h particle])"

definition add_Bunch :: "'a heap \<Rightarrow> Bunch \<Rightarrow> Bunch \<Rightarrow> error + ('a heap \<times> Bunch)" where
  "add_Bunch h self other =
     (if \<not> isinstance other (cls self) then Inl TypeError
      else
        let (h1, new_bunch) = deepcopy h self;
            new_bunch = new_bunch\<lparr>bunch := bunch new_bunch @ bunch other\<rparr>;
            new_bunch = new_bunch\<lparr>bunch_number := bunch_number new_bunch + bunch_number other\<rparr>
        in case bunchName other of
             None \<Rightarrow> Inl AttributeError
           | Some other_name \<Rightarrow>
               (let new_bunch = new_bunch\<lparr>bunchName := Some (''combined '' @ other_name)\<rparr>
                in case average_kinetic_energy new_bunch of
                     None \<Rightarrow> Inl AttributeError
                   | Some _ \<Rightarrow>
                       (let new_bunch = new_bunch\<lparr>average_kinetic_energy := None\<rparr>
                        in Inr (rename_loop (bunch new_bunch) (bunch new_bunch) h1, new_bunch))))"

text \<open>The names of the members of a bunch, in member order.\<close>

definition member_names :: "'a heap \<Rightarrow> Bunch \<Rightarrow> string list" where
  "member_names h b = map (\<lambda>p. name (h ! p)) (bunch b)"

section \<open>Sampling: assignPositions and distributeEnergies\<close>

text \<open>
  The random generator is a sequence of standard normal variates, \<open>rng\<close>, and the number
  of variates drawn so far. \<^verbatim>\<open>np.random.normal(mu, sigma)\<close> is
  \<open>mu + sigma * z\<close> for the next variate \<open>z\<close>; with a shape it draws one variate per
  entry, row by row. NumPy raises \<^verbatim>\<open>ValueError\<close> for a negative \<open>sigma\<close> and for a
  negative dimension.
\<close>

definition normal :: "(nat \<Rightarrow> real) \<Rightarrow> nat \<Rightarrow> real \<Rightarrow> real \<Rightarrow> real" where
  "normal rng k mu sigma = mu + sigma * rng k"

definition normal_array ::
  "(nat \<Rightarrow> real) \<Rightarrow> nat \<Rightarrow> real \<Rightarrow> real \<Rightarrow> int \<Rightarrow> error + (real list \<times> nat)" where
  "normal_array rng k mu sigma n =
     (if sigma < 0 \<or> n < 0 then Inl ValueError
      else Inr (map (\<lambda>i. normal rng (k + i) mu sigma) [0..<nat n], k + nat n))"

definition normal_rows3 ::
  "(nat \<Rightarrow> real) \<Rightarrow> nat \<Rightarrow> real \<Rightarrow> real \<Rightarrow> int \<Rightarrow> error + (vec3 list \<times> nat)" where
  "normal_rows3 rng k mu sigma n =
     (if sigma < 0 \<or> n < 0 then Inl ValueError
      else Inr (map (\<lambda>i. (normal rng (k + 3 * i) mu sigma,
                          normal rng (k + 3 * i + 1) mu sigma,
                          normal rng (k + 3 * i + 2) mu sigma)) [0..<nat n],
                k + 3 * nat n))"

text \<open>The loop \<^verbatim>\<open>for i in positions: i[2] = 0.\<close>\<close>

primrec zero_z :: "vec3 list \<Rightarrow> vec3 list" where
  "zero_z [] = []"
| "zero_z (i # rest) = (fst i, fst (snd i), 0) # zero_z rest"

definition assignPositions ::
  "Bunch \<Rightarrow> (nat \<Rightarrow> real) \<Rightarrow> nat \<Rightarrow> error + (vec3 list \<times> nat)" where
  "assignPositions self rng k =
     (let mu = 0; sigma = positionSigma self
      in case normal_rows3 rng k mu sigma (bunch_number self) of
           Inl e \<Rightarrow> Inl e
         | Inr (positions, k') \<Rightarrow> Inr (zero_z positions, k'))"

text \<open>
  The body of the \<^verbatim>\<open>while\<close> loop of \<^verbatim>\<open>distributeEnergies\<close>: one pass of
  \<^verbatim>\<open>for energy in energies\<close> over the array, by position. A non-positive value is
  looked up in the array as it is at that moment and the first entry equal to it is
  replaced by a new draw.
\<close>

primrec resample_pass ::
  "(nat \<Rightarrow> real) \<Rightarrow> real \<Rightarrow> real \<Rightarrow> nat list \<Rightarrow> real list \<times> nat \<Rightarrow> real list \<times> nat" where
  "resample_pass rng mu sigma [] st = st"
| "resample_pass rng mu sigma (j # js) st =
     (let energies = fst st; k = snd st; energy = energies ! j
      in resample_pass rng mu sigma js
           (if energy \<le> 0
            then (energies[index energies energy := normal rng k mu sigma], k + 1)
            else (energies, k)))"

text \<open>
  The \<^verbatim>\<open>while\<close> loop itself. It need not end: the result \<open>None\<close> is a run that
  never leaves the loop.
\<close>

partial_function (option) resample_while ::
  "(nat \<Rightarrow> real) \<Rightarrow> real \<Rightarrow> real \<Rightarrow> real list \<times> nat \<Rightarrow> (real list \<times> nat) option" where
  "resample_while rng mu sigma st =
     (if list_all (\<lambda>i. 0 < i) (fst st) then Some st
      else resample_while rng mu sigma
             (resample_pass rng mu sigma [0..<length (fst st)] st))"

declare resample_while.simps [code]

definition distributeEnergies ::
  "Bunch \<Rightarrow> (nat \<Rightarrow> real) \<Rightarrow> nat \<Rightarrow> (error + (real list \<times> nat)) option" where
  "distributeEnergies self rng k =
     (case average_kinetic_energy self of
        None \<Rightarrow> Some (Inl AttributeError)
      | Some mu \<Rightarrow>
          (let sigma = 0.0001 * mu
           in case normal_array rng k mu sigma (bunch_number self) of
                Inl e \<Rightarrow> Some (Inl e)
              | Inr st \<Rightarrow> map_option Inr (resample_while rng mu sigma st)))"

section \<open>Bunch.gamma\<close>

text \<open>
  \<^verbatim>\<open>np.mean(..., axis=0)\<close> of a list of vectors is their componentwise mean. Of an
  empty list it is not a number (with a warning, not an exception): \<open>None\<close>.
\<close>

definition mean_axis0 :: "vec3 list \<Rightarrow> vec3 option" where
  "mean_axis0 vs =
     (if vs = [] then None
      else Some (sum_list (map fst vs) / real (length vs),
                 sum_list (map (fst \<circ> snd) vs) / real (length vs),
                 sum_list (map (snd \<circ> snd) vs) / real (length vs)))"

definition averageVelocity :: "'a heap \<Rightarrow> Bunch \<Rightarrow> vec3 option" where
  "averageVelocity h self = mean_axis0 (map (\<lambda>i. velocity (h ! i)) (bunch self))"

text \<open>\<^verbatim>\<open>np.linalg.norm\<close> of a vector.\<close>

definition norm3 :: "vec3 \<Rightarrow> real" where
  "norm3 v = sqrt (fst v * fst v + fst (snd v) * fst (snd v) + snd (snd v) * snd (snd v))"

text \<open>
  \<^verbatim>\<open>math.sqrt\<close> raises \<^verbatim>\<open>ValueError\<close> (math domain error) on a negative
  argument, and Python's division of floats raises \<^verbatim>\<open>ZeroDivisionError\<close> on a
  zero divisor.
\<close>

definition math_sqrt :: "real \<Rightarrow> error + real" where
  "math_sqrt x = (if x < 0 then Inl ValueError else Inr (sqrt x))"

definition truediv :: "real \<Rightarrow> real \<Rightarrow> error + real" where
  "truediv x y = (if y = 0 then Inl ZeroDivisionError else Inr (x / y))"

text \<open>\<^verbatim>\<open>scipy.constants.c\<close>, the speed of light in metres per second.\<close>

definition const_c :: real where
  "const_c = 299792458"

text \<open>
  What a call that computes a float can do: return a number, return the float that is
  not a number, or raise.
\<close>

datatype float_result = Finite real | NaN | Raised error

definition gamma :: "'a heap \<Rightarrow> Bunch \<Rightarrow> float_result" where
  "gamma h self =
     (case averageVelocity h self of
        None \<Rightarrow> NaN
      | Some v \<Rightarrow>
          (let speed = norm3 v
           in case math_sqrt (1 - (speed * speed) / (const_c * const_c)) of
                Inl e \<Rightarrow> Raised e
              | Inr r \<Rightarrow> (case truediv 1 r of Inl e \<Rightarrow> Raised e | Inr g \<Rightarrow> Finite g)))"

section \<open>Construction\<close>

text \<open>
  Modelled from the spec: \<^verbatim>\<open>createBunch\<close> and \<^verbatim>\<open>assignVelocities\<close> are abstract in
  \<^verbatim>\<open>Bunch.py\<close> and the class that implements them is not in the source files. The
  spec gives the order of construction: sample the positions, sample the energies, derive
  one velocity from each energy, and make the particle objects. The last two steps
  depend on the species and are parameters: \<open>velocity_of\<close> turns an energy into a
  velocity, \<open>materialize\<close> builds the particle with a given index, position and velocity.
  The result \<open>None\<close> is a construction that never returns.
\<close>

record 'a species =
  species_cls :: string
  species_bases :: "string list"
  species_bunchName :: "string option"
  velocity_of :: "real \<Rightarrow> vec3"
  materialize :: "nat \<Rightarrow> vec3 \<Rightarrow> vec3 \<Rightarrow> 'a particle"

definition createBunch ::
  "'a species \<Rightarrow> 'a heap \<Rightarrow> Bunch \<Rightarrow> (nat \<Rightarrow> real) \<Rightarrow> nat
     \<Rightarrow> (error + ('a heap \<times> addr list \<times> nat)) option" where
  "createBunch S h self rng k =
     (case assignPositions self rng k of
        Inl e \<Rightarrow> Some (Inl e)
      | Inr (positions, k1) \<Rightarrow>
          (case distributeEnergies self rng k1 of
             None \<Rightarrow> None
           | Some (Inl e) \<Rightarrow> Some (Inl e)
           | Some (Inr (energies, k2)) \<Rightarrow>
               (let velocities = map (velocity_of S) energies;
                    particles = map (\<lambda>(i, p, v). materialize S i p v)
                                  (zip [0..<length positions] (zip positions velocities))
                in Some (Inr (h @ particles, [length h..<length h + length particles], k2)))))"

text \<open>
  \<^verbatim>\<open>Bunch.__init__\<close>, as the constructor of a concrete species reaches it: it stores
  the three arguments and assigns the result of \<^verbatim>\<open>createBunch\<close> to the attribute
  \<open>bunch\<close>. It compares none of its arguments with zero.
\<close>

definition init_Bunch ::
  "'a species \<Rightarrow> 'a heap \<Rightarrow> real \<Rightarrow> int \<Rightarrow> real \<Rightarrow> (nat \<Rightarrow> real) \<Rightarrow> nat
     \<Rightarrow> (error + ('a heap \<times> Bunch \<times> nat)) option" where
  "init_Bunch S h AverageKinetic particleNumber sigma rng k =
     (let self = \<lparr>cls = species_cls S, bases = species_bases S,
                  average_kinetic_energy = Some AverageKinetic,
                  bunch_number = particleNumber,
                  positionSigma = sigma,
                  bunch = [],
                  bunchName = species_bunchName S\<rparr>
      in case createBunch S h self rng k of
           None \<Rightarrow> None
         | Some (Inl e) \<Rightarrow> Some (Inl e)
         | Some (Inr (h', members, k')) \<Rightarrow> Some (Inr (h', self\<lparr>bunch := members\<rparr>, k')))"

section \<open>The simulation loop\<close>

text \<open>
  The state of the driver: the heap, the current time, the two series and the log.
  The live bunch \<^verbatim>\<open>protons\<close> and the field are fixed objects; the loop changes the
  particles of the bunch, not the bunch object.
\<close>

record 'a driver =
  heap_of :: "'a heap"
  time_of :: real
  timeSeries :: "real list"
  Data :: "Bunch list"
  logged_of :: "string list"

text \<open>The selector that the script assigns to its variable \<^verbatim>\<open>method\<close>.\<close>

definition selected_method :: int where
  "selected_method = 2"

definition deltaT0 :: real where
  "deltaT0 = 1 / 10 ^ 11"

definition duration :: real where
  "duration = 2.38 * (1 / 10 ^ 8) * 100"

text \<open>
  \<^verbatim>\<open>field.getAcceleration(protons.bunch, time, dt)\<close> belongs to the field class,
  which is not in the source files. It is handed the member objects and writes into
  them: the parameter \<open>G\<close> maps the states of the particles it is given to their new
  states, which are stored back into the same objects, or fails.
\<close>

primrec store_all :: "addr list \<Rightarrow> 'b list \<Rightarrow> 'b list \<Rightarrow> 'b list" where
  "store_all [] vs h = h"
| "store_all (p # ps) vs h =
     (case vs of [] \<Rightarrow> h | v # vs' \<Rightarrow> store_all ps vs' (h[p := v]))"

definition getAcceleration ::
  "('f \<Rightarrow> 'a particle list \<Rightarrow> real \<Rightarrow> real \<Rightarrow> error + 'a particle list)
     \<Rightarrow> 'f \<Rightarrow> 'a heap \<Rightarrow> addr list \<Rightarrow> real \<Rightarrow> real \<Rightarrow> error + 'a heap" where
  "getAcceleration G fld h particles time dt =
     (case G fld (map (\<lambda>p. h ! p) particles) time dt of
        Inl e \<Rightarrow> Inl e
      | Inr vs \<Rightarrow> Inr (store_all particles vs h))"

text \<open>The statements before the loop that set up the two series.\<close>

definition initial_driver :: "'a heap \<Rightarrow> Bunch \<Rightarrow> 'a driver" where
  "initial_driver h protons =
     (let (h', inital_bunch) = deepcopy h protons
      in \<lparr>heap_of = h', time_of = 0, timeSeries = [0], Data = [inital_bunch], logged_of = []\<rparr>)"

text \<open>The body of the \<^verbatim>\<open>while\<close> loop. An exception ends the run.\<close>

definition loop_body ::
  "('a, 'f EMField_scheme) integrators
     \<Rightarrow> ('f EMField_scheme \<Rightarrow> 'a particle list \<Rightarrow> real \<Rightarrow> real \<Rightarrow> error + 'a particle list)
     \<Rightarrow> 'f EMField_scheme \<Rightarrow> Bunch \<Rightarrow> 'a driver \<Rightarrow> error + 'a driver" where
  "loop_body I G fld protons s =
     (let dt = adaptiveStep (heap_of s) protons deltaT0 fld;
          time = time_of s + dt;
          series = timeSeries s @ [time]
      in case getAcceleration G fld (heap_of s) (bunch protons) time dt of
           Inl e \<Rightarrow> Inl e
         | Inr h1 \<Rightarrow>
             (case update I h1 (logged_of s) protons dt fld time selected_method of
                (h2, lg, Some e) \<Rightarrow> Inl e
              | (h2, lg, None) \<Rightarrow>
                  (let (h3, temp_bunch) = deepcopy h2 protons
                   in Inr \<lparr>heap_of = h3, time_of = time, timeSeries = series,
                           Data = Data s @ [temp_bunch], logged_of = lg\<rparr>)))"

text \<open>One turn of \<^verbatim>\<open>while time <= duration\<close> that completes.\<close>

definition loop_step ::
  "('a, 'f EMField_scheme) integrators
     \<Rightarrow> ('f EMField_scheme \<Rightarrow> 'a particle list \<Rightarrow> real \<Rightarrow> real \<Rightarrow> error + 'a particle list)
     \<Rightarrow> 'f EMField_scheme \<Rightarrow> Bunch \<Rightarrow> 'a driver \<Rightarrow> 'a driver \<Rightarrow> bool" where
  "loop_step I G fld protons s s' = (time_of s \<le> duration \<and> loop_body I G fld protons s = Inr s')"

text \<open>The loop. \<open>None\<close> is a run that never ends.\<close>

partial_function (option) simulation_loop ::
  "('a, 'f EMField_scheme) integrators
     \<Rightarrow> ('f EMField_scheme \<Rightarrow> 'a particle list \<Rightarrow> real \<Rightarrow> real \<Rightarrow> error + 'a particle list)
     \<Rightarrow> 'f EMField_scheme \<Rightarrow> Bunch \<Rightarrow> 'a driver \<Rightarrow> (error + 'a driver) option" where
  "simulation_loop I G fld protons s =
     (if time_of s \<le> duration then
        (case loop_body I G fld protons s of
           Inl e \<Rightarrow> Some (Inl e)
         | Inr s' \<Rightarrow> simulation_loop I G fld protons s')
      else Some (Inr s))"

declare simulation_loop.simps [code]

text \<open>
  What a recorded bunch holds: the states of its members, read from the heap.
\<close>

definition contents :: "'a heap \<Rightarrow> Bunch \<Rightarrow> 'a particle list" where
  "contents h b = map (\<lambda>p. h ! p) (bunch b)"

text \<open>
  No aliasing: the members of the live bunch and of every recorded bunch are objects of
  the heap, and no member of a recorded bunch is a member of the live bunch.
\<close>

definition separate :: "'a heap \<Rightarrow> Bunch \<Rightarrow> Bunch list \<Rightarrow> bool" where
  "separate h protons snapshots =
     ((\<forall>p\<in>set (bunch protons). p < length h) \<and>
      (\<forall>d\<in>set snapshots. \<forall>q\<in>set (bunch d). q < length h \<and> q \<notin> set (bunch protons)))"

section \<open>Concrete inputs\<close>

text \<open>
  A small world on which the definitions are run: two protons, one bunch for each, a
  field with the bounds that the driver script uses, and simple stand-ins for the
  operations of the particle and field classes.
\<close>

definition ex_heap :: "unit heap" where
  "ex_heap = [\<lparr>name = ''proton 1'', position = (- 0.055, 0, 0), velocity = (1, 0, 0)\<rparr>,
              \<lparr>name = ''proton 1'', position = (2, 0, 0), velocity = (0, 1, 0)\<rparr>]"

definition ex_A :: Bunch where
  "ex_A = \<lparr>cls = ''ProtonBunch'', bases = [''Bunch''], average_kinetic_energy = Some 100,
            bunch_number = 1, positionSigma = 0.01, bunch = [0],
            bunchName = Some ''proton-bunch''\<rparr>"

definition ex_B :: Bunch where
  "ex_B = \<lparr>cls = ''ProtonBunch'', bases = [''Bunch''], average_kinetic_energy = Some 200,
            bunch_number = 1, positionSigma = 0.01, bunch = [1],
            bunchName = Some ''proton-bunch''\<rparr>"

text \<open>
  A bunch of ten protons, named \<open>proton 1\<close> to \<open>proton 10\<close> as its species names
  them, and a bunch of one proton; all eleven particles rest at the origin.
\<close>

definition ex_heap11 :: "unit heap" where
  "ex_heap11 =
     map (\<lambda>i. \<lparr>name = ''proton '' @ str (i + 1), position = (0, 0, 0), velocity = (0, 0, 0)\<rparr>)
       [0..<10]
     @ [\<lparr>name = ''proton 1'', position = (0, 0, 0), velocity = (0, 0, 0)\<rparr>]"

definition ex_A10 :: Bunch where
  "ex_A10 = \<lparr>cls = ''ProtonBunch'', bases = [''Bunch''], average_kinetic_energy = Some 100,
              bunch_number = 10, positionSigma = 0.01, bunch = [0, 1, 2, 3, 4, 5, 6, 7, 8, 9],
              bunchName = Some ''proton-bunch''\<rparr>"

definition ex_B1 :: Bunch where
  "ex_B1 = \<lparr>cls = ''ProtonBunch'', bases = [''Bunch''], average_kinetic_energy = Some 200,
             bunch_number = 1, positionSigma = 0.01, bunch = [10],
             bunchName = Some ''proton-bunch''\<rparr>"

text \<open>The heap and the bunch that \<open>ex_A + ex_B\<close> produces.\<close>

definition ex_heap_AB :: "unit heap" where
  "ex_heap_AB = [\<lparr>name = ''proton 1'', position = (- 0.055, 0, 0), velocity = (1, 0, 0)\<rparr>,
                 \<lparr>name = ''proton 2'', position = (2, 0, 0), velocity = (0, 1, 0)\<rparr>,
                 \<lparr>name = ''proton 1'', position = (- 0.055, 0, 0), velocity = (1, 0, 0)\<rparr>]"

definition ex_AB :: Bunch where
  "ex_AB = \<lparr>cls = ''ProtonBunch'', bases = [''Bunch''], average_kinetic_energy = None,
             bunch_number = 2, positionSigma = 0.01, bunch = [2, 1],
             bunchName = Some ''combined proton-bunch''\<rparr>"

definition ex_field :: EMField where
  "ex_field = \<lparr>electricLowerBound = - 0.05, electricUpperBound = 0.05\<rparr>"

definition drift :: "unit particle \<Rightarrow> real \<Rightarrow> unit particle" where
  "drift p dt = p\<lparr>position := (fst (position p) + dt * fst (velocity p),
                               fst (snd (position p)) + dt * fst (snd (velocity p)),
                               snd (snd (position p)) + dt * snd (snd (velocity p)))\<rparr>"

definition kick :: "unit particle \<Rightarrow> real \<Rightarrow> EMField \<Rightarrow> real \<Rightarrow> unit particle" where
  "kick p dt fld time =
     (if electricLowerBound fld \<le> fst (position p) \<and> fst (position p) \<le> electricUpperBound fld
      then p\<lparr>velocity := (fst (velocity p) + dt * time, fst (snd (velocity p)),
                           snd (snd (velocity p)))\<rparr>
      else p)"

definition ex_integrators :: "(unit, EMField) integrators" where
  "ex_integrators =
     \<lparr>euler = (\<lambda>p dt. Inr (drift p dt)),
      eulerCromer = (\<lambda>p dt. Inr (drift p dt)),
      velocityVerlet = (\<lambda>p dt fld time. Inr (drift (kick p dt fld time) dt)),
      RungeKutta4 = (\<lambda>p dt fld time.
        if dt < 0 then Inl StepFailure else Inr (drift (kick p dt fld time) dt))\<rparr>"

definition ex_G :: "EMField \<Rightarrow> unit particle list \<Rightarrow> real \<Rightarrow> real \<Rightarrow> error + unit particle list" where
  "ex_G fld ps time dt = Inr (map (\<lambda>p. kick p dt fld time) ps)"

text \<open>A proton at twice the speed of light, and its bunch.\<close>

definition ex_fast_heap :: "unit heap" where
  "ex_fast_heap = [\<lparr>name = ''proton 1'', position = (0, 0, 0), velocity = (599584916, 0, 0)\<rparr>]"

text \<open>
  A sequence of variates whose first value is so far below the mean that the first
  sampled energy of a bunch of mean 100 is negative.
\<close>

definition ex_rng :: "nat \<Rightarrow> real" where
  "ex_rng i = (if i = 0 then - 20000 else if i = 1 then 1 else 0)"

definition ex_new :: Bunch where
  "ex_new = \<lparr>cls = ''ProtonBunch'', bases = [''Bunch''], average_kinetic_energy = Some 100,
              bunch_number = 2, positionSigma = 0.01, bunch = [],
              bunchName = Some ''proton-bunch''\<rparr>"

definition ex_species :: "unit species" where
  "ex_species =
     \<lparr>species_cls = ''ProtonBunch'', species_bases = [''Bunch''],
      species_bunchName = Some ''proton-bunch'',
      velocity_of = (\<lambda>energy. (energy, 0, 0)),
      materialize = (\<lambda>i p v. \<lparr>name = ''proton '' @ str (i + 1), position = p, velocity = v\<rparr>)\<rparr>"

text \<open>
  The driver on the one-member bunch \<open>ex_A\<close>: its state before the loop, after one turn
  and after two turns. The particle sits in the padded region, so each step is
  \<open>deltaT0 * 0.01\<close>, and it moves by that much in each turn.
\<close>

definition ex_s0 :: "unit driver" where
  "ex_s0 =
     \<lparr>heap_of = [\<lparr>name = ''proton 1'', position = (- 0.055, 0, 0), velocity = (1, 0, 0)\<rparr>,
                 \<lparr>name = ''proton 1'', position = (2, 0, 0), velocity = (0, 1, 0)\<rparr>,
                 \<lparr>name = ''proton 1'', position = (- 0.055, 0, 0), velocity = (1, 0, 0)\<rparr>],
      time_of = 0, timeSeries = [0], Data = [ex_A\<lparr>bunch := [2]\<rparr>], logged_of = []\<rparr>"

definition ex_s1 :: "unit driver" where
  "ex_s1 =
     \<lparr>heap_of = [\<lparr>name = ''proton 1'', position = (- 0.055 + 1 / 10 ^ 13, 0, 0), velocity = (1, 0, 0)\<rparr>,
                 \<lparr>name = ''proton 1'', position = (2, 0, 0), velocity = (0, 1, 0)\<rparr>,
                 \<lparr>name = ''proton 1'', position = (- 0.055, 0, 0), velocity = (1, 0, 0)\<rparr>,
                 \<lparr>name = ''proton 1'', position = (- 0.055 + 1 / 10 ^ 13, 0, 0), velocity = (1, 0, 0)\<rparr>],
      time_of = 1 / 10 ^ 13, timeSeries = [0, 1 / 10 ^ 13],
      Data = [ex_A\<lparr>bunch := [2]\<rparr>, ex_A\<lparr>bunch := [3]\<rparr>], logged_of = []\<rparr>"

definition ex_s2 :: "unit driver" where
  "ex_s2 =
     \<lparr>heap_of = [\<lparr>name = ''proton 1'', position = (- 0.055 + 2 / 10 ^ 13, 0, 0), velocity = (1, 0, 0)\<rparr>,
                 \<lparr>name = ''proton 1'', position = (2, 0, 0), velocity = (0, 1, 0)\<rparr>,
                 \<lparr>name = ''proton 1'', position = (- 0.055, 0, 0), velocity = (1, 0, 0)\<rparr>,
                 \<lparr>name = ''proton 1'', position = (- 0.055 + 1 / 10 ^ 13, 0, 0), velocity = (1, 0, 0)\<rparr>,
                 \<lparr>name = ''proton 1'', position = (- 0.055 + 2 / 10 ^ 13, 0, 0), velocity = (1, 0, 0)\<rparr>],
      time_of = 2 / 10 ^ 13, timeSeries = [0, 1 / 10 ^ 13, 2 / 10 ^ 13],
      Data = [ex_A\<lparr>bunch := [2]\<rparr>, ex_A\<lparr>bunch := [3]\<rparr>, ex_A\<lparr>bunch := [4]\<rparr>],
      logged_of = []\<rparr>"

section \<open>adaptiveStep: the step is shortened exactly when a member is near the field\<close>

lemma py_any_map: "py_any (map P xs) = (\<exists>x\<in>set xs. P x)"
  by (induction xs) auto

text \<open>
  C1. \<^verbatim>\<open>adaptiveStep(deltaT, field)\<close> returns \<open>deltaT * 0.01\<close> if the x-position of
  at least one member lies in the closed interval from
  \<open>electricLowerBound - 0.1 * |electricLowerBound|\<close> to
  \<open>electricUpperBound + 0.1 * |electricUpperBound|\<close>, and \<open>deltaT\<close> otherwise.
\<close>

theorem adaptiveStep_spec:
  "adaptiveStep h self deltaT fld =
     (if \<exists>i\<in>set (bunch self).
           electricLowerBound fld - 0.1 * \<bar>electricLowerBound fld\<bar> \<le> fst (position (h ! i)) \<and>
           fst (position (h ! i)) \<le> electricUpperBound fld + 0.1 * \<bar>electricUpperBound fld\<bar>
      then deltaT * 0.01 else deltaT)"
  by (simp add: adaptiveStep_def Let_def py_any_map)

text \<open>
  The member of \<open>ex_A\<close> sits exactly on the padded lower bound \<open>-0.055\<close>, the member
  of \<open>ex_B\<close> is outside the padded interval.
\<close>

theorem adaptiveStep_spec_witness:
  "adaptiveStep ex_heap ex_A 1 ex_field = 0.01 \<and> adaptiveStep ex_heap ex_B 1 ex_field = 1"
  using adaptiveStep_spec [of ex_heap ex_A 1 ex_field]
        adaptiveStep_spec [of ex_heap ex_B 1 ex_field]
  by (simp add: ex_heap_def ex_A_def ex_B_def ex_field_def)

section \<open>update: the selector\<close>

text \<open>
  C5. With a selector other than 0, 1, 2 and 3, \<^verbatim>\<open>update\<close> leaves every particle
  in the state that selector 3 leaves it in, and raises what selector 3 raises; the only
  difference is the warning added to the log, which selector 3 does not touch.
\<close>

theorem update_invalid_selector:
  "set_method \<notin> {0, 1, 2, 3} \<Longrightarrow>
   update I h logged self deltaT fld time set_method =
     (fst (update I h logged self deltaT fld time 3),
      logged @ [invalid_set_method_warning],
      snd (snd (update I h logged self deltaT fld time 3))) \<and>
   fst (snd (update I h logged self deltaT fld time 3)) = logged"
  by (simp add: update_def Let_def split: prod.splits)

theorem update_invalid_selector_witness:
  "(4::int) \<notin> {0, 1, 2, 3} \<and>
   update ex_integrators ex_heap [] ex_A 1 ex_field 2 4 =
     ([\<lparr>name = ''proton 1'', position = (0.945, 0, 0), velocity = (1, 0, 0)\<rparr>,
       \<lparr>name = ''proton 1'', position = (2, 0, 0), velocity = (0, 1, 0)\<rparr>],
      [invalid_set_method_warning], None) \<and>
   update ex_integrators ex_heap [] ex_A 1 ex_field 2 3 =
     ([\<lparr>name = ''proton 1'', position = (0.945, 0, 0), velocity = (1, 0, 0)\<rparr>,
       \<lparr>name = ''proton 1'', position = (2, 0, 0), velocity = (0, 1, 0)\<rparr>],
      [], None)"
proof -
  have sel: "(4::int) \<notin> {0, 1, 2, 3}" by simp
  have three: "update ex_integrators ex_heap [] ex_A 1 ex_field 2 3 =
     ([\<lparr>name = ''proton 1'', position = (0.945, 0, 0), velocity = (1, 0, 0)\<rparr>,
       \<lparr>name = ''proton 1'', position = (2, 0, 0), velocity = (0, 1, 0)\<rparr>],
      [], None)"
    by (simp add: update_def ex_integrators_def ex_heap_def ex_A_def ex_field_def
        drift_def kick_def)
  show ?thesis
    using update_invalid_selector [OF sel, of ex_integrators ex_heap "[]" ex_A 1 ex_field 2] three
    by simp
qed

text \<open>
  C10. With selector 0 (Euler) or 1 (Euler-Cromer) the result of \<^verbatim>\<open>update\<close> does
  not depend on the field and time arguments.
\<close>

theorem update_euler_independent:
  "set_method = 0 \<or> set_method = 1 \<Longrightarrow>
   update I h logged self deltaT fld1 time1 set_method =
   update I h logged self deltaT fld2 time2 set_method"
  by (auto simp add: update_def)

theorem update_euler_independent_witness:
  "((0::int) = 0 \<or> (0::int) = 1) \<and>
   update ex_integrators ex_heap [] ex_A 1 ex_field 2 0 =
   update ex_integrators ex_heap [] ex_A 1
     \<lparr>electricLowerBound = - 7, electricUpperBound = 7\<rparr> 9 0"
proof -
  have sel: "(0::int) = 0 \<or> (0::int) = 1" by simp
  show ?thesis
    using update_euler_independent [OF sel, of ex_integrators ex_heap "[]" ex_A 1 ex_field 2
        "\<lparr>electricLowerBound = - 7, electricUpperBound = 7\<rparr>" 9]
    by simp
qed

section \<open>The combine operator\<close>

lemma upt_0_Suc_map: "map f [0..<Suc n] = f 0 # map (\<lambda>i. f (Suc i)) [0..<n]"
proof -
  have "[0..<Suc n] = 0 # map Suc [0..<n]"
    by (subst upt_conv_Cons, simp, simp only: map_Suc_upt)
  then show ?thesis by (simp only: list.map map_map o_def)
qed

text \<open>
  The deep copy of a list of distinct, not yet copied objects: the copies are appended
  to the heap in order, and their addresses are the next free ones.
\<close>

lemma deepcopy_members_distinct:
  "distinct ps \<Longrightarrow> \<forall>p\<in>set ps. map_of memo p = None \<and> p < length h \<Longrightarrow>
   deepcopy_members memo h ps =
     (h @ map (\<lambda>p. h ! p) ps, map (\<lambda>i. length h + i) [0..<length ps])"
proof (induction ps arbitrary: memo h)
  case Nil
  then show ?case by simp
next
  case (Cons p ps)
  have none: "map_of memo p = None" and valid: "p < length h"
    using Cons.prems by simp_all
  have rest: "\<forall>x\<in>set ps. map_of ((p, length h) # memo) x = None \<and> x < length (h @ [h ! p])"
    using Cons.prems by auto
  have "distinct ps" using Cons.prems by simp
  from Cons.IH [OF this rest]
  have rec: "deepcopy_members ((p, length h) # memo) (h @ [h ! p]) ps =
      ((h @ [h ! p]) @ map (\<lambda>x. (h @ [h ! p]) ! x) ps,
       map (\<lambda>i. length (h @ [h ! p]) + i) [0..<length ps])" .
  have same: "map (\<lambda>x. (h @ [h ! p]) ! x) ps = map (\<lambda>x. h ! x) ps"
    using Cons.prems by (simp add: nth_append)
  have addrs: "map (\<lambda>i. length h + i) [0..<length (p # ps)] =
      length h # map (\<lambda>i. length (h @ [h ! p]) + i) [0..<length ps]"
  proof -
    have a: "map (\<lambda>i. length h + i) [0..<Suc (length ps)] =
        (length h + 0) # map (\<lambda>i. length h + Suc i) [0..<length ps]"
      by (rule upt_0_Suc_map)
    have b: "(\<lambda>i. length h + Suc i) = (\<lambda>i. length (h @ [h ! p]) + i)"
      by (rule ext) simp
    show ?thesis unfolding length_Cons a b by simp
  qed
  have "deepcopy_members memo h (p # ps) =
      ((h @ [h ! p]) @ map (\<lambda>x. h ! x) ps,
       length h # map (\<lambda>i. length (h @ [h ! p]) + i) [0..<length ps])"
    by (simp only: deepcopy_members.simps none option.case Let_def rec same prod.case)
  then show ?case
    by (simp only: addrs) simp
qed

lemma deepcopy_distinct:
  "distinct (bunch self) \<Longrightarrow> \<forall>p\<in>set (bunch self). p < length h \<Longrightarrow>
   deepcopy h self =
     (h @ map (\<lambda>p. h ! p) (bunch self),
      self\<lparr>bunch := map (\<lambda>i. length h + i) [0..<length (bunch self)]\<rparr>)"
  using deepcopy_members_distinct [of "bunch self" "[]" h]
  by (simp add: deepcopy_def)

lemma index_nth: "distinct ms \<Longrightarrow> i < length ms \<Longrightarrow> index ms (ms ! i) = i"
proof (induction ms arbitrary: i)
  case Nil
  then show ?case by simp
next
  case (Cons m ms)
  then show ?case by (cases i) auto
qed

lemma renamed_cong: "h' ! a = h ! a \<Longrightarrow> renamed ms h' a = renamed ms h a"
  by (simp add: renamed_def)

text \<open>
  The renaming loop over distinct objects renames each of them once and leaves every
  other cell of the heap as it was.
\<close>

lemma rename_loop_nth:
  "distinct ps \<Longrightarrow> a < length h \<Longrightarrow>
   rename_loop ms ps h ! a = (if a \<in> set ps then renamed ms h a else h ! a)"
proof (induction ps arbitrary: h)
  case Nil
  then show ?case by simp
next
  case (Cons p ps)
  let ?h = "h[p := renamed ms h p]"
  have IH: "rename_loop ms ps ?h ! a = (if a \<in> set ps then renamed ms ?h a else ?h ! a)"
    using Cons.IH [of ?h] Cons.prems by simp
  have notin: "p \<notin> set ps" using Cons.prems by simp
  show ?case
  proof (cases "a = p")
    case True
    then have "rename_loop ms ps ?h ! a = ?h ! a" using IH notin by simp
    then show ?thesis using True Cons.prems(2) by simp
  next
    case False
    then have "?h ! a = h ! a" by simp
    then have "renamed ms ?h a = renamed ms h a" by (rule renamed_cong)
    then show ?thesis using IH False \<open>?h ! a = h ! a\<close> by simp
  qed
qed

lemma add_Bunch_result:
  assumes "isinstance other (cls self)"
    and "average_kinetic_energy self = Some e"
    and "bunchName other = Some nm"
    and "distinct (bunch self)"
    and "\<forall>p\<in>set (bunch self). p < length h"
  shows "add_Bunch h self other =
     Inr (rename_loop (map (\<lambda>i. length h + i) [0..<length (bunch self)] @ bunch other)
            (map (\<lambda>i. length h + i) [0..<length (bunch self)] @ bunch other)
            (h @ map (\<lambda>p. h ! p) (bunch self)),
          self\<lparr>bunch := map (\<lambda>i. length h + i) [0..<length (bunch self)] @ bunch other,
               bunch_number := bunch_number self + bunch_number other,
               bunchName := Some (''combined '' @ nm),
               average_kinetic_energy := None\<rparr>)"
  using assms by (simp add: add_Bunch_def deepcopy_distinct)

lemma fresh_distinct:
  "distinct other \<Longrightarrow> \<forall>p\<in>set other. p < L \<Longrightarrow>
   distinct (map (\<lambda>i. L + i) [0..<n] @ other)"
  by (auto simp add: distinct_map inj_on_def)

text \<open>
  What the code computes when the right operand is an instance of the class of the left
  one, the left one still has its average kinetic energy, the right one has a name and
  the members of each are distinct objects: the new bunch has the copies of the members
  of the left operand followed by the members of the right operand, the sum of the two
  counts and no average kinetic energy, and the name of each member is rewritten by the
  expression \<^verbatim>\<open>particle.name[:-1] + str(index + 1)\<close>.
\<close>

lemma add_Bunch_combined:
  assumes inst: "isinstance other (cls self)"
    and ke: "average_kinetic_energy self = Some e"
    and nm: "bunchName other = Some nm"
    and dself: "distinct (bunch self)"
    and dother: "distinct (bunch other)"
    and vself: "\<forall>p\<in>set (bunch self). p < length h"
    and vother: "\<forall>p\<in>set (bunch other). p < length h"
  shows "\<exists>h' new. add_Bunch h self other = Inr (h', new) \<and>
     length (bunch new) = length (bunch self) + length (bunch other) \<and>
     bunch_number new = bunch_number self + bunch_number other \<and>
     average_kinetic_energy new = None \<and>
     (\<forall>i<length (bunch self).
        h' ! (bunch new ! i) =
          (h ! (bunch self ! i))\<lparr>name := butlast (name (h ! (bunch self ! i))) @ str (i + 1)\<rparr>) \<and>
     (\<forall>j<length (bunch other).
        bunch new ! (length (bunch self) + j) = bunch other ! j \<and>
        h' ! (bunch other ! j) =
          (h ! (bunch other ! j))\<lparr>name := butlast (name (h ! (bunch other ! j)))
                                        @ str (length (bunch self) + j + 1)\<rparr>)"
proof -
  define n where "n = length (bunch self)"
  define qs where "qs = map (\<lambda>i. length h + i) [0..<n]"
  define ms where "ms = qs @ bunch other"
  define h1 where "h1 = h @ map (\<lambda>p. h ! p) (bunch self)"
  define new where "new = self\<lparr>bunch := ms,
               bunch_number := bunch_number self + bunch_number other,
               bunchName := Some (''combined '' @ nm),
               average_kinetic_energy := None\<rparr>"
  have res: "add_Bunch h self other = Inr (rename_loop ms ms h1, new)"
    unfolding new_def ms_def qs_def h1_def n_def
    by (rule add_Bunch_result [OF inst ke nm dself vself])
  have dms: "distinct ms"
    unfolding ms_def qs_def by (rule fresh_distinct [OF dother vother])
  have lqs: "length qs = n" by (simp add: qs_def)
  have lh1: "length h1 = length h + n" by (simp add: h1_def n_def)
  have first: "rename_loop ms ms h1 ! (ms ! i) =
      (h ! (bunch self ! i))\<lparr>name := butlast (name (h ! (bunch self ! i))) @ str (i + 1)\<rparr>"
    if "i < n" for i
  proof -
    have mi: "ms ! i = length h + i" using that by (simp add: ms_def qs_def nth_append)
    have in_ms: "ms ! i \<in> set ms" using that by (intro nth_mem) (simp add: ms_def lqs)
    have idx: "index ms (ms ! i) = i"
      using dms that by (intro index_nth) (simp_all add: ms_def lqs)
    have val: "h1 ! (ms ! i) = h ! (bunch self ! i)"
      using that by (simp add: mi h1_def n_def nth_append)
    have "rename_loop ms ms h1 ! (ms ! i) = renamed ms h1 (ms ! i)"
      using rename_loop_nth [OF dms, of "ms ! i" h1 ms] in_ms that by (simp add: mi lh1)
    then show ?thesis by (simp add: renamed_def idx val)
  qed
  have second: "ms ! (n + j) = bunch other ! j \<and> rename_loop ms ms h1 ! (bunch other ! j) =
      (h ! (bunch other ! j))\<lparr>name := butlast (name (h ! (bunch other ! j))) @ str (n + j + 1)\<rparr>"
    if "j < length (bunch other)" for j
  proof -
    have mj: "ms ! (n + j) = bunch other ! j" by (simp add: ms_def nth_append lqs)
    have lt: "bunch other ! j < length h" using vother that by simp
    have in_ms: "bunch other ! j \<in> set ms" using that by (simp add: ms_def)
    have "index ms (ms ! (n + j)) = n + j"
      using dms that by (intro index_nth) (simp_all add: ms_def lqs)
    then have idx: "index ms (bunch other ! j) = n + j" by (simp only: mj)
    have val: "h1 ! (bunch other ! j) = h ! (bunch other ! j)"
      using lt by (simp add: h1_def nth_append)
    have "rename_loop ms ms h1 ! (bunch other ! j) = renamed ms h1 (bunch other ! j)"
      using rename_loop_nth [OF dms, of "bunch other ! j" h1 ms] in_ms lt by (simp add: lh1)
    then show ?thesis by (simp add: renamed_def idx val mj)
  qed
  have bn: "bunch new = ms" by (simp add: new_def)
  show ?thesis
  proof (intro exI conjI)
    show "add_Bunch h self other = Inr (rename_loop ms ms h1, new)" by (rule res)
    show "length (bunch new) = length (bunch self) + length (bunch other)"
      by (simp add: bn ms_def lqs n_def)
    show "bunch_number new = bunch_number self + bunch_number other" by (simp add: new_def)
    show "average_kinetic_energy new = None" by (simp add: new_def)
    show "\<forall>i<length (bunch self). rename_loop ms ms h1 ! (bunch new ! i) =
          (h ! (bunch self ! i))\<lparr>name := butlast (name (h ! (bunch self ! i))) @ str (i + 1)\<rparr>"
      using first by (simp add: bn n_def)
    show "\<forall>j<length (bunch other).
        bunch new ! (length (bunch self) + j) = bunch other ! j \<and>
        rename_loop ms ms h1 ! (bunch other ! j) =
          (h ! (bunch other ! j))\<lparr>name := butlast (name (h ! (bunch other ! j)))
                                        @ str (length (bunch self) + j + 1)\<rparr>"
      using second by (simp add: bn n_def)
  qed
qed

text \<open>The combination of the two example bunches, computed.\<close>

lemma add_Bunch_example: "add_Bunch ex_heap ex_A ex_B = Inr (ex_heap_AB, ex_AB)"
  by (simp add: add_Bunch_def isinstance_def deepcopy_def renamed_def str.simps digit_def
      ex_heap_def ex_A_def ex_B_def ex_heap_AB_def ex_AB_def)

text \<open>
  The loop body keeps all of the former name but its last character: a member that was
  called \<open>proton 10\<close> and stands at position 10 is called \<open>proton 110\<close> afterwards.
\<close>

lemma renamed_two_digits:
  "name (renamed [1, 2, 3, 4, 5, 6, 7, 8, 9, 0]
     [\<lparr>name = ''proton 10'', position = (0, 0, 0), velocity = (0, 0, 0)\<rparr>] 0) = ''proton 110''"
  by (simp add: renamed_def str.simps digit_def)

lemma add_Bunch_TypeError:
  "\<not> isinstance other (cls self) \<Longrightarrow> add_Bunch h self other = Inl TypeError"
  by (simp add: add_Bunch_def)

text \<open>
  C2. For two bunches \<open>A\<close> and \<open>B\<close> of the same concrete species, \<open>A + B\<close> should
  return a new bunch with the members of \<open>A\<close> followed by those of \<open>B\<close>, whose names
  are renumbered by their positions 1 to \<open>n + m\<close>. The code does not do that.

  The renaming cuts one character off the former name, so it renumbers only names that
  end in a single digit. In \<open>ex_A10 + ex_B1\<close> the ten members of the left operand are
  called \<open>proton 1\<close> to \<open>proton 10\<close>; in the result the member at position 10 is
  called \<open>proton 110\<close>.

  And a left operand that is itself the result of a combination is refused:
  \<open>ex_A + ex_B\<close> is the bunch \<open>ex_AB\<close>, of the class of \<open>ex_B\<close>, and
  \<open>ex_AB + ex_B\<close> raises \<^verbatim>\<open>AttributeError\<close>, because \<^verbatim>\<open>delattr\<close> finds no
  average kinetic energy to delete.
\<close>

theorem add_Bunch_renumbering:
  "cls ex_B1 = cls ex_A10 \<and>
   member_names ex_heap11 ex_A10 =
     [''proton 1'', ''proton 2'', ''proton 3'', ''proton 4'', ''proton 5'', ''proton 6'',
      ''proton 7'', ''proton 8'', ''proton 9'', ''proton 10''] \<and>
   member_names ex_heap11 ex_B1 = [''proton 1''] \<and>
   map_sum id (\<lambda>r. member_names (fst r) (snd r)) (add_Bunch ex_heap11 ex_A10 ex_B1) =
     Inr [''proton 1'', ''proton 2'', ''proton 3'', ''proton 4'', ''proton 5'', ''proton 6'',
          ''proton 7'', ''proton 8'', ''proton 9'', ''proton 110'', ''proton 11''] \<and>
   add_Bunch ex_heap ex_A ex_B = Inr (ex_heap_AB, ex_AB) \<and>
   cls ex_AB = cls ex_B \<and>
   add_Bunch ex_heap_AB ex_AB ex_B = Inl AttributeError"
proof -
  have species: "cls ex_B1 = cls ex_A10" by (simp add: ex_A10_def ex_B1_def)
  have before: "member_names ex_heap11 ex_A10 =
     [''proton 1'', ''proton 2'', ''proton 3'', ''proton 4'', ''proton 5'', ''proton 6'',
      ''proton 7'', ''proton 8'', ''proton 9'', ''proton 10'']"
    by code_simp
  have right: "member_names ex_heap11 ex_B1 = [''proton 1'']"
    by code_simp
  have after: "map_sum id (\<lambda>r. member_names (fst r) (snd r))
       (add_Bunch ex_heap11 ex_A10 ex_B1) =
     Inr [''proton 1'', ''proton 2'', ''proton 3'', ''proton 4'', ''proton 5'', ''proton 6'',
          ''proton 7'', ''proton 8'', ''proton 9'', ''proton 110'', ''proton 11'']"
    by code_simp
  have same: "cls ex_AB = cls ex_B" by (simp add: ex_AB_def ex_B_def)
  have chained: "add_Bunch ex_heap_AB ex_AB ex_B = Inl AttributeError"
    by (simp add: add_Bunch_def isinstance_def deepcopy_def ex_heap_AB_def ex_AB_def ex_B_def)
  show ?thesis
    using species before right after add_Bunch_example same chained by blast
qed

text \<open>
  C3. After \<open>A + B\<close> no particle object should belong to two bunches, and the members of
  the operands should be as they were. The code copies the members of the left operand
  only. In \<open>ex_A + ex_B\<close> the object at address 1, the member of \<open>ex_B\<close>, is also the
  second member of the new bunch, and the renaming loop has changed its name from
  \<open>proton 1\<close> to \<open>proton 2\<close>.
\<close>

theorem add_Bunch_shares_right_operand:
  "add_Bunch ex_heap ex_A ex_B = Inr (ex_heap_AB, ex_AB) \<and>
   bunch ex_B = [1] \<and> bunch ex_AB = [2, 1] \<and>
   name (ex_heap ! 1) = ''proton 1'' \<and> name (ex_heap_AB ! 1) = ''proton 2'' \<and>
   ex_heap_AB ! 0 = ex_heap ! 0"
  using add_Bunch_example
  by (simp add: ex_heap_def ex_heap_AB_def ex_AB_def ex_B_def)


section \<open>Sampling\<close>

lemma zero_z_props: "length (zero_z ps) = length ps \<and> (\<forall>p\<in>set (zero_z ps). snd (snd p) = 0)"
  by (induction ps) simp_all

text \<open>
  C8. \<^verbatim>\<open>assignPositions\<close> returns one vector per particle of the bunch, and the
  third coordinate of every vector is 0: whenever it returns, the number of vectors is
  the particle count and every third coordinate is 0; and it does return for every bunch
  whose particle count is the number of its members and whose \<open>positionSigma\<close> is not
  negative, with one vector per member.
\<close>

theorem assignPositions_spec:
  "(assignPositions self rng k = Inr (positions, k') \<longrightarrow>
      int (length positions) = bunch_number self \<and> (\<forall>p\<in>set positions. snd (snd p) = 0)) \<and>
   (bunch_number self = int (length (bunch self)) \<and> 0 \<le> positionSigma self \<longrightarrow>
      (\<exists>ps k1. assignPositions self rng k = Inr (ps, k1) \<and> length ps = length (bunch self) \<and>
         (\<forall>p\<in>set ps. snd (snd p) = 0)))"
proof -
  have returned: "int (length ps) = bunch_number self \<and> (\<forall>p\<in>set ps. snd (snd p) = 0)"
    if r: "assignPositions self rng k = Inr (ps, k1)" for ps k1
  proof -
    from r obtain raw where
      raw: "normal_rows3 rng k 0 (positionSigma self) (bunch_number self) = Inr (raw, k1)"
      and pos: "ps = zero_z raw"
      by (auto simp add: assignPositions_def Let_def split: sum.splits)
    from raw have "int (length raw) = bunch_number self"
      by (auto simp add: normal_rows3_def split: if_splits)
    then show ?thesis
      using zero_z_props [of raw] by (simp add: pos)
  qed
  have returns: "\<exists>ps k1. assignPositions self rng k = Inr (ps, k1)"
    if "0 \<le> bunch_number self" and "0 \<le> positionSigma self"
    using that by (simp add: assignPositions_def normal_rows3_def Let_def)
  have part1: "assignPositions self rng k = Inr (positions, k') \<longrightarrow>
      int (length positions) = bunch_number self \<and> (\<forall>p\<in>set positions. snd (snd p) = 0)"
    using returned by blast
  have part2: "bunch_number self = int (length (bunch self)) \<and> 0 \<le> positionSigma self \<longrightarrow>
      (\<exists>ps k1. assignPositions self rng k = Inr (ps, k1) \<and> length ps = length (bunch self) \<and>
         (\<forall>p\<in>set ps. snd (snd p) = 0))"
  proof (rule impI)
    assume a: "bunch_number self = int (length (bunch self)) \<and> 0 \<le> positionSigma self"
    then obtain ps k1 where r: "assignPositions self rng k = Inr (ps, k1)"
      using returns by auto
    from returned [OF r] a have "length ps = length (bunch self)" and "\<forall>p\<in>set ps. snd (snd p) = 0"
      by simp_all
    with r show "\<exists>ps k1. assignPositions self rng k = Inr (ps, k1) \<and>
        length ps = length (bunch self) \<and> (\<forall>p\<in>set ps. snd (snd p) = 0)"
      by blast
  qed
  from part1 part2 show ?thesis by (rule conjI)
qed

text \<open>
  The positions sampled for \<open>ex_A\<close>, a bunch of one member, when every variate is 1:
  the three coordinates are drawn as \<open>0.01\<close> and the third is then set to 0.
\<close>

theorem assignPositions_spec_witness:
  "assignPositions ex_A (\<lambda>i. 1) 0 = Inr ([(0.01, 0.01, 0)], 3) \<and>
   bunch_number ex_A = int (length (bunch ex_A)) \<and> 0 \<le> positionSigma ex_A \<and>
   int (length [(0.01::real, 0.01::real, 0::real)]) = bunch_number ex_A \<and>
   (\<exists>ps k1. assignPositions ex_A (\<lambda>i. 1) 0 = Inr (ps, k1) \<and> length ps = length (bunch ex_A) \<and>
      (\<forall>p\<in>set ps. snd (snd p) = 0))"
proof -
  have r: "assignPositions ex_A (\<lambda>i. 1) 0 = Inr ([(0.01, 0.01, 0)], 3)"
    by (simp add: assignPositions_def normal_rows3_def normal_def ex_A_def Let_def)
  have h: "bunch_number ex_A = int (length (bunch ex_A)) \<and> 0 \<le> positionSigma ex_A"
    by (simp add: ex_A_def)
  show ?thesis
    using assignPositions_spec [of ex_A "\<lambda>i. 1" 0 "[(0.01, 0.01, 0)]" 3] r h by blast
qed

lemma length_resample_pass: "length (fst (resample_pass rng mu sigma js st)) = length (fst st)"
  by (induction js arbitrary: st) (simp_all add: Let_def)





section \<open>The Lorentz factor\<close>

lemma norm3_nonneg: "0 \<le> norm3 v"
  by (simp add: norm3_def)

text \<open>What \<^verbatim>\<open>gamma\<close> does with an average velocity of magnitude \<open>a\<close>.\<close>

lemma gamma_cases:
  assumes av: "averageVelocity h self = Some v"
  shows "gamma h self =
     (if const_c < norm3 v then Raised ValueError
      else if norm3 v = const_c then Raised ZeroDivisionError
      else Finite (1 / sqrt (1 - (norm3 v / const_c)\<^sup>2)))"
proof -
  define a where "a = norm3 v"
  have a0: "0 \<le> a" by (simp add: a_def norm3_nonneg)
  have c0: "0 < const_c" by (simp add: const_c_def)
  have ratio: "(a * a) / (const_c * const_c) = (a / const_c)\<^sup>2"
    by (simp add: power2_eq_square)
  have g: "gamma h self =
      (case math_sqrt (1 - (a / const_c)\<^sup>2) of
         Inl e \<Rightarrow> Raised e
       | Inr r \<Rightarrow> (case truediv 1 r of Inl e \<Rightarrow> Raised e | Inr g \<Rightarrow> Finite g))"
    by (simp add: gamma_def av Let_def a_def [symmetric] ratio)
  consider "const_c < a" | "a = const_c" | "a < const_c" by linarith
  then show ?thesis
  proof cases
    case 1
    then have "1 < a / const_c" using c0 by simp
    then have "1 < (a / const_c)\<^sup>2" by (rule one_less_power) simp
    then show ?thesis using 1 by (simp add: g math_sqrt_def a_def [symmetric])
  next
    case 2
    then have "(a / const_c)\<^sup>2 = 1" using c0 by simp
    then show ?thesis using 2 by (simp add: g math_sqrt_def truediv_def a_def [symmetric])
  next
    case 3
    then have "a / const_c < 1" and "0 \<le> a / const_c" using c0 a0 by simp_all
    then have "(a / const_c)\<^sup>2 < 1" by (simp add: abs_square_less_1)
    then have "0 < sqrt (1 - (a / const_c)\<^sup>2)" by simp
    then show ?thesis using 3 \<open>(a / const_c)\<^sup>2 < 1\<close>
      by (simp add: g math_sqrt_def truediv_def a_def [symmetric])
  qed
qed

text \<open>
  C7, as stated: when the magnitude of the average velocity is at least \<open>c\<close>,
  \<^verbatim>\<open>gamma\<close> produces a result that is not a number and raises nothing. For a bunch
  whose only member moves at twice the speed of light, the code raises
  \<^verbatim>\<open>ValueError\<close>: the argument of \<^verbatim>\<open>math.sqrt\<close> is \<open>-3\<close>.
\<close>

theorem gamma_counterexample:
  "averageVelocity ex_fast_heap ex_A = Some (599584916, 0, 0) \<and>
   const_c \<le> norm3 (599584916, 0, 0) \<and>
   gamma ex_fast_heap ex_A = Raised ValueError \<and>
   gamma ex_fast_heap ex_A \<noteq> NaN"
proof -
  have av: "averageVelocity ex_fast_heap ex_A = Some (599584916, 0, 0)"
    by (simp add: averageVelocity_def mean_axis0_def ex_fast_heap_def ex_A_def)
  have n: "norm3 (599584916, 0, 0) = 599584916"
    by (simp add: norm3_def)
  have g: "gamma ex_fast_heap ex_A = Raised ValueError"
    by (simp add: gamma_cases [OF av] n const_c_def)
  show ?thesis using av n g by (simp add: const_c_def)
qed

text \<open>
  C7, amended. For a bunch with members, let \<open>v\<close> be the componentwise average of the
  velocities of the members. \<^verbatim>\<open>gamma\<close> returns \<open>1 / sqrt (1 - (|v| / c)\<^sup>2)\<close> when
  the magnitude \<open>|v|\<close> is below \<open>c\<close>; it raises \<^verbatim>\<open>ZeroDivisionError\<close> when \<open>|v| = c\<close> and
  \<^verbatim>\<open>ValueError\<close> when \<open>|v| > c\<close>. There is no guard: the exceptions are those of
  the division and of \<^verbatim>\<open>math.sqrt\<close>.
\<close>

theorem gamma_spec:
  assumes "bunch self \<noteq> []"
    and "vs = map (\<lambda>i. velocity (h ! i)) (bunch self)"
    and "v = (sum_list (map fst vs) / real (length vs),
              sum_list (map (fst \<circ> snd) vs) / real (length vs),
              sum_list (map (snd \<circ> snd) vs) / real (length vs))"
  shows "(norm3 v < const_c \<longrightarrow> gamma h self = Finite (1 / sqrt (1 - (norm3 v / const_c)\<^sup>2))) \<and>
         (norm3 v = const_c \<longrightarrow> gamma h self = Raised ZeroDivisionError) \<and>
         (const_c < norm3 v \<longrightarrow> gamma h self = Raised ValueError)"
proof -
  have "averageVelocity h self = Some v"
    using assms by (simp add: averageVelocity_def mean_axis0_def)
  then show ?thesis by (simp add: gamma_cases)
qed

text \<open>
  The member of \<open>ex_A\<close> moves at one metre per second; a particle at the speed of light
  makes the division fail.
\<close>

theorem gamma_spec_witness:
  "bunch ex_A \<noteq> [] \<and>
   map (\<lambda>i. velocity (ex_heap ! i)) (bunch ex_A) = [(1, 0, 0)] \<and>
   norm3 (1, 0, 0) < const_c \<and>
   gamma ex_heap ex_A = Finite (1 / sqrt (1 - (1 / 299792458)\<^sup>2)) \<and>
   map (\<lambda>i. velocity
        ([\<lparr>name = ''proton 1'', position = (0, 0, 0), velocity = (0, 299792458, 0)\<rparr>] ! i))
     (bunch ex_A) = [(0, 299792458, 0)] \<and>
   norm3 (0, 299792458, 0) = const_c \<and>
   gamma [\<lparr>name = ''proton 1'', position = (0, 0, 0), velocity = (0, 299792458, 0)\<rparr>] ex_A
     = Raised ZeroDivisionError"
proof -
  have ne: "bunch ex_A \<noteq> []" by (simp add: ex_A_def)
  have vs: "[(1, 0, 0)] = map (\<lambda>i. velocity (ex_heap ! i)) (bunch ex_A)"
    by (simp add: ex_heap_def ex_A_def)
  have v: "(1, 0, 0) = (sum_list (map fst [(1::real, 0::real, 0::real)]) / real (length [(1::real, 0::real, 0::real)]),
              sum_list (map (fst \<circ> snd) [(1::real, 0::real, 0::real)]) / real (length [(1::real, 0::real, 0::real)]),
              sum_list (map (snd \<circ> snd) [(1::real, 0::real, 0::real)]) / real (length [(1::real, 0::real, 0::real)]))"
    by simp
  have n: "norm3 (1, 0, 0) = 1" by (simp add: norm3_def)
  have vs2: "[(0, 299792458, 0)] = map (\<lambda>i. velocity
        ([\<lparr>name = ''proton 1'', position = (0, 0, 0), velocity = (0, 299792458, 0)\<rparr>] ! i))
     (bunch ex_A)"
    by (simp add: ex_A_def)
  have v2: "(0, 299792458, 0) =
      (sum_list (map fst [(0::real, 299792458::real, 0::real)]) / real (length [(0::real, 299792458::real, 0::real)]),
       sum_list (map (fst \<circ> snd) [(0::real, 299792458::real, 0::real)]) / real (length [(0::real, 299792458::real, 0::real)]),
       sum_list (map (snd \<circ> snd) [(0::real, 299792458::real, 0::real)]) / real (length [(0::real, 299792458::real, 0::real)]))"
    by simp
  have n2: "norm3 (0, 299792458, 0) = const_c" by (simp add: norm3_def const_c_def)
  have g1: "gamma ex_heap ex_A = Finite (1 / sqrt (1 - (1 / 299792458)\<^sup>2))"
    using gamma_spec [OF ne vs v] n by (simp add: const_c_def)
  have g2: "gamma [\<lparr>name = ''proton 1'', position = (0, 0, 0), velocity = (0, 299792458, 0)\<rparr>] ex_A
     = Raised ZeroDivisionError"
    using gamma_spec [OF ne vs2 v2] n2 by simp
  show ?thesis
    using ne vs [symmetric] vs2 [symmetric] n n2 g1 g2 by (simp add: const_c_def)
qed

section \<open>Construction and the sign of the mean\<close>

text \<open>
  With mean 0 the standard deviation is 0 and every draw is 0. A pass over an array of
  zeros leaves an array of zeros.
\<close>

lemma resample_pass_zero:
  "\<forall>e\<in>set (fst st). e = 0 \<Longrightarrow> \<forall>e\<in>set (fst (resample_pass rng 0 0 js st)). e = 0"
proof (induction js arbitrary: st)
  case Nil
  then show ?case by simp
next
  case (Cons j js)
  let ?st = "if fst st ! j \<le> 0
             then ((fst st)[index (fst st) (fst st ! j) := normal rng (snd st) 0 0], snd st + 1)
             else (fst st, snd st)"
  have "set (fst ?st) \<subseteq> insert 0 (set (fst st))"
    using set_update_subset_insert [of "fst st" "index (fst st) (fst st ! j)" 0]
    by (auto simp add: normal_def)
  then have "\<forall>e\<in>set (fst ?st). e = 0" using Cons.prems by auto
  from Cons.IH [OF this] show ?case by (simp add: Let_def)
qed

text \<open>So the loop that starts from a non-empty array of zeros with mean 0 never ends.\<close>

lemma resample_while_zero:
  assumes ne: "fst st \<noteq> []" and z: "\<forall>e\<in>set (fst st). e = 0"
  shows "resample_while rng 0 0 st = None"
proof (rule ccontr)
  assume "resample_while rng 0 0 st \<noteq> None"
  then obtain st' where r: "resample_while rng 0 0 st = Some st'" by auto
  have "\<not> (0 = (0::real) \<and> 0 = (0::real) \<and> fst st \<noteq> [] \<and> (\<forall>e\<in>set (fst st). e = 0))"
  proof (rule resample_while.raw_induct
      [where P = "\<lambda>rng mu sigma st st'.
         \<not> (mu = 0 \<and> sigma = 0 \<and> fst st \<noteq> [] \<and> (\<forall>e\<in>set (fst st). e = 0))", OF _ r])
    fix loop rng mu sigma st and st' :: "real list \<times> nat"
    assume IH: "\<And>rng mu sigma st st'. loop rng mu sigma st = Some st' \<Longrightarrow>
         \<not> (mu = 0 \<and> sigma = 0 \<and> fst st \<noteq> [] \<and> (\<forall>e\<in>set (fst st). e = 0))"
      and eq: "(if list_all (\<lambda>i. 0 < i) (fst st) then Some st
        else loop rng mu sigma (resample_pass rng mu sigma [0..<length (fst st)] st)) = Some st'"
    show "\<not> (mu = 0 \<and> sigma = 0 \<and> fst st \<noteq> [] \<and> (\<forall>e\<in>set (fst st). e = 0))"
    proof
      assume a: "mu = 0 \<and> sigma = 0 \<and> fst st \<noteq> [] \<and> (\<forall>e\<in>set (fst st). e = 0)"
      then obtain x xs where xs: "fst st = x # xs" by (cases "fst st") auto
      with a have "x = 0" by simp
      then have "\<not> list_all (\<lambda>i. 0 < i) (fst st)" by (simp add: xs)
      then have l: "loop rng 0 0 (resample_pass rng 0 0 [0..<length (fst st)] st) = Some st'"
        using eq a by simp
      have "fst (resample_pass rng 0 0 [0..<length (fst st)] st) \<noteq> []"
        using length_resample_pass [of rng 0 0 "[0..<length (fst st)]" st] a
        by (metis length_0_conv)
      moreover have "\<forall>e\<in>set (fst (resample_pass rng 0 0 [0..<length (fst st)] st)). e = 0"
        using a by (intro resample_pass_zero) simp
      ultimately show False using IH [OF l] by simp
    qed
  qed
  then show False using ne z by simp
qed

lemma distributeEnergies_zero_mean:
  assumes "average_kinetic_energy self = Some 0" and "0 < bunch_number self"
  shows "distributeEnergies self rng k = None"
proof -
  define st where "st = (map (\<lambda>i. normal rng (k + i) 0 0) [0..<nat (bunch_number self)],
                         k + nat (bunch_number self))"
  have arr: "normal_array rng k 0 0 (bunch_number self) = Inr st"
    using assms by (simp add: normal_array_def st_def)
  have "fst st \<noteq> []" using assms by (simp add: st_def)
  moreover have "\<forall>e\<in>set (fst st). e = 0" by (simp add: st_def normal_def)
  ultimately have "resample_while rng 0 0 st = None" by (rule resample_while_zero)
  then show ?thesis using assms arr by (simp add: distributeEnergies_def)
qed

text \<open>
  Construction with mean 0, at least one particle and a valid \<open>positionSigma\<close> does
  not return.
\<close>

lemma init_Bunch_zero_mean:
  assumes "0 < particleNumber" and "0 \<le> sigma"
  shows "init_Bunch S h 0 particleNumber sigma rng k = None"
proof -
  define self where "self = \<lparr>cls = species_cls S, bases = species_bases S,
      average_kinetic_energy = Some 0, bunch_number = particleNumber,
      positionSigma = sigma, bunch = [], bunchName = species_bunchName S\<rparr>"
  obtain ps k1 where pos: "assignPositions self rng k = Inr (ps, k1)"
    using assms by (simp add: assignPositions_def normal_rows3_def self_def Let_def)
  have "distributeEnergies self rng k1 = None"
    using assms by (intro distributeEnergies_zero_mean) (simp_all add: self_def)
  then have "createBunch S h self rng k = None"
    by (simp add: createBunch_def pos)
  then show ?thesis
    by (simp add: init_Bunch_def self_def [symmetric] Let_def)
qed

text \<open>
  A construction that succeeds, for comparison: mean 100, two particles. The first
  position is drawn far out because the first variate is \<open>-20000\<close>; both energies are
  drawn as 100.
\<close>

lemma init_Bunch_example:
  "init_Bunch ex_species [] 100 2 0.01 ex_rng 0 =
     Some (Inr ([\<lparr>name = ''proton 1'', position = (- 200, 0.01, 0), velocity = (100, 0, 0)\<rparr>,
                 \<lparr>name = ''proton 2'', position = (0, 0, 0), velocity = (100, 0, 0)\<rparr>],
                ex_new\<lparr>bunch := [0, 1]\<rparr>, 8))"
  by (simp add: init_Bunch_def createBunch_def assignPositions_def distributeEnergies_def
      normal_rows3_def normal_array_def normal_def resample_while.simps ex_species_def
      ex_new_def ex_rng_def str.simps digit_def Let_def upt_rec)

text \<open>
  C6, as stated: construction with an average kinetic energy that is not positive fails
  with an error. With the mean 0 and the default three particles no error is raised: the
  construction never returns.
\<close>

theorem init_Bunch_counterexample:
  "(0::real) \<le> 0 \<and> init_Bunch ex_species [] 0 3 0.01 ex_rng 0 = None \<and>
   init_Bunch ex_species [] 0 3 0.01 ex_rng 0 \<noteq> Some (Inl ValueError)"
  using init_Bunch_zero_mean [of 3 "0.01" ex_species "[]" ex_rng 0] by simp

text \<open>
  C6, amended. \<^verbatim>\<open>Bunch.__init__\<close> does not look at the sign of the mean. Construction
  with a negative average kinetic energy fails with the \<^verbatim>\<open>ValueError\<close> that the
  sampler raises, for the negative standard deviation if not before, and no bunch is
  produced.
\<close>

theorem init_Bunch_negative_mean:
  assumes "AverageKinetic < 0"
  shows "init_Bunch S h AverageKinetic particleNumber sigma rng k = Some (Inl ValueError)"
proof -
  define self where "self = \<lparr>cls = species_cls S, bases = species_bases S,
      average_kinetic_energy = Some AverageKinetic, bunch_number = particleNumber,
      positionSigma = sigma, bunch = [], bunchName = species_bunchName S\<rparr>"
  have energies: "distributeEnergies self rng k1 = Some (Inl ValueError)" for k1
    using assms by (simp add: distributeEnergies_def normal_array_def self_def)
  have "createBunch S h self rng k = Some (Inl ValueError)"
  proof (cases "assignPositions self rng k")
    case (Inl e)
    then have "e = ValueError"
      by (auto simp add: assignPositions_def normal_rows3_def Let_def split: if_splits)
    then show ?thesis using Inl by (simp add: createBunch_def)
  next
    case (Inr r)
    then show ?thesis by (cases r) (simp add: createBunch_def energies)
  qed
  then show ?thesis
    by (simp add: init_Bunch_def self_def [symmetric] Let_def)
qed

theorem init_Bunch_negative_mean_witness:
  "(- 5::real) < 0 \<and> init_Bunch ex_species [] (- 5) 3 0.01 ex_rng 0 = Some (Inl ValueError) \<and>
   assignPositions (ex_new\<lparr>average_kinetic_energy := Some (- 5), bunch_number := 3\<rparr>) ex_rng 0
     = Inr ([(- 200, 0.01, 0), (0, 0, 0), (0, 0, 0)], 9)"
proof -
  have neg: "(- 5::real) < 0" by simp
  have "assignPositions (ex_new\<lparr>average_kinetic_energy := Some (- 5), bunch_number := 3\<rparr>) ex_rng 0
     = Inr ([(- 200, 0.01, 0), (0, 0, 0), (0, 0, 0)], 9)"
    by (simp add: assignPositions_def normal_rows3_def normal_def ex_new_def ex_rng_def Let_def
        upt_rec)
  then show ?thesis
    using init_Bunch_negative_mean [OF neg, of ex_species "[]" 3 "0.01" ex_rng 0] by simp
qed


section \<open>The snapshots of the simulation loop\<close>

text \<open>Writing into a list of objects changes no other object.\<close>

lemma store_all_frame:
  "length (store_all ps vs h) = length h \<and> (\<forall>a. a \<notin> set ps \<longrightarrow> store_all ps vs h ! a = h ! a)"
proof (induction ps arbitrary: vs h)
  case Nil
  then show ?case by simp
next
  case (Cons p ps)
  show ?case
  proof (cases vs)
    case Nil
    then show ?thesis by simp
  next
    case (Cons v vs')
    then show ?thesis using Cons.IH [of vs' "h[p := v]"] by auto
  qed
qed

lemma step_all_frame:
  "step_all f ps h = (h', e) \<Longrightarrow>
   length h' = length h \<and> (\<forall>a. a \<notin> set ps \<longrightarrow> h' ! a = h ! a)"
proof (induction ps arbitrary: h)
  case Nil
  then show ?case by simp
next
  case (Cons p ps)
  show ?case
  proof (cases "f (h ! p)")
    case (Inl err)
    then show ?thesis using Cons.prems by simp
  next
    case (Inr q)
    then have "step_all f ps (h[p := q]) = (h', e)" using Cons.prems by simp
    from Cons.IH [OF this] show ?thesis by auto
  qed
qed

lemma update_frame:
  assumes "update I h lg self dt fld t m = (h', lg', e)"
  shows "length h' = length h \<and> (\<forall>a. a \<notin> set (bunch self) \<longrightarrow> h' ! a = h ! a)"
proof -
  from assms obtain f where "step_all f (bunch self) h = (h', e)"
    by (auto simp add: update_def Let_def split: if_splits prod.splits)
  then show ?thesis by (rule step_all_frame)
qed

lemma getAcceleration_frame:
  assumes "getAcceleration G fld h ps t dt = Inr h'"
  shows "length h' = length h \<and> (\<forall>a. a \<notin> set ps \<longrightarrow> h' ! a = h ! a)"
proof -
  from assms obtain vs where "h' = store_all ps vs h"
    by (auto simp add: getAcceleration_def split: sum.splits)
  then show ?thesis using store_all_frame [of ps vs h] by simp
qed

text \<open>
  The deep copy in general, with objects that occur more than once: the heap grows at
  its end only, every address of the copy is a new one, and the copy holds the states of
  the originals, in order. \<open>L\<close> is the size of the heap when the copy began.
\<close>

lemma deepcopy_members_frame:
  assumes "\<forall>p\<in>set ps. p < L" and "L \<le> length h"
    and "\<forall>p q. map_of memo p = Some q \<longrightarrow> p < L \<and> L \<le> q \<and> q < length h \<and> h ! q = h ! p"
    and "deepcopy_members memo h ps = (h', qs)"
  shows "length h \<le> length h' \<and> (\<forall>a<length h. h' ! a = h ! a) \<and>
         (\<forall>q\<in>set qs. L \<le> q \<and> q < length h') \<and>
         map (\<lambda>q. h' ! q) qs = map (\<lambda>p. h ! p) ps"
  using assms
proof (induction ps arbitrary: memo h h' qs)
  case Nil
  then show ?case by simp
next
  case (Cons p ps)
  have pL: "p < L" and psL: "\<forall>x\<in>set ps. x < L" using Cons.prems(1) by simp_all
  show ?case
  proof (cases "map_of memo p")
    case (Some q)
    obtain h1 qs1 where rec: "deepcopy_members memo h ps = (h1, qs1)"
      by (cases "deepcopy_members memo h ps")
    with Some Cons.prems(4) have eq: "h' = h1" "qs = q # qs1" by simp_all
    from Cons.IH [OF psL Cons.prems(2) Cons.prems(3) rec]
    have IH: "length h \<le> length h1" "\<forall>a<length h. h1 ! a = h ! a"
      "\<forall>x\<in>set qs1. L \<le> x \<and> x < length h1"
      "map (\<lambda>q. h1 ! q) qs1 = map (\<lambda>p. h ! p) ps"
      by simp_all
    from Cons.prems(3) Some have q: "L \<le> q" "q < length h" "h ! q = h ! p" by simp_all
    have "h1 ! q = h ! p" using IH(2) q by simp
    then show ?thesis using IH q by (simp add: eq)
  next
    case None
    let ?h = "h @ [h ! p]"
    let ?memo = "(p, length h) # memo"
    obtain h1 qs1 where rec: "deepcopy_members ?memo ?h ps = (h1, qs1)"
      by (cases "deepcopy_members ?memo ?h ps")
    with None Cons.prems(4) have eq: "h' = h1" "qs = length h # qs1" by (simp_all add: Let_def)
    have plen: "p < length h" using pL Cons.prems(2) by simp
    have memo: "\<forall>x q. map_of ?memo x = Some q \<longrightarrow>
        x < L \<and> L \<le> q \<and> q < length ?h \<and> ?h ! q = ?h ! x"
    proof (intro allI impI)
      fix x q
      assume m: "map_of ?memo x = Some q"
      show "x < L \<and> L \<le> q \<and> q < length ?h \<and> ?h ! q = ?h ! x"
      proof (cases "x = p")
        case True
        then have "q = length h" using m by simp
        then show ?thesis using True pL plen Cons.prems(2) by (simp add: nth_append)
      next
        case False
        then have "map_of memo x = Some q" using m by simp
        with Cons.prems(3) have "x < L" "L \<le> q" "q < length h" "h ! q = h ! x" by simp_all
        then show ?thesis using Cons.prems(2) by (simp add: nth_append)
      qed
    qed
    have L1: "L \<le> length ?h" using Cons.prems(2) by simp
    from Cons.IH [OF psL L1 memo rec]
    have IH: "length ?h \<le> length h1" "\<forall>a<length ?h. h1 ! a = ?h ! a"
      "\<forall>x\<in>set qs1. L \<le> x \<and> x < length h1"
      "map (\<lambda>q. h1 ! q) qs1 = map (\<lambda>p. ?h ! p) ps"
      by simp_all
    have old: "\<forall>a<length h. h1 ! a = h ! a"
      using IH(2) by (simp add: nth_append)
    have new: "h1 ! length h = h ! p"
      using IH(2) by simp
    have "\<forall>x\<in>set ps. x < length h" using psL Cons.prems(2) by auto
    then have same: "map (\<lambda>p. ?h ! p) ps = map (\<lambda>p. h ! p) ps"
      by (simp add: nth_append)
    have "length h \<le> length h1" and "length h < length h1" using IH(1) by simp_all
    then show ?thesis
      using old new IH(3) IH(4) same Cons.prems(2) by (simp add: eq)
  qed
qed

lemma deepcopy_frame:
  assumes "\<forall>p\<in>set (bunch b). p < length h" and "deepcopy h b = (h', c)"
  shows "length h \<le> length h' \<and> (\<forall>a<length h. h' ! a = h ! a) \<and>
         (\<forall>q\<in>set (bunch c). length h \<le> q \<and> q < length h') \<and>
         contents h' c = contents h b"
proof -
  obtain h1 qs where r: "deepcopy_members [] h (bunch b) = (h1, qs)"
    by (cases "deepcopy_members [] h (bunch b)")
  with assms(2) have eq: "h' = h1" "c = b\<lparr>bunch := qs\<rparr>" by (simp_all add: deepcopy_def)
  have "\<forall>p q. map_of [] p = Some q \<longrightarrow>
      p < length h \<and> length h \<le> q \<and> q < length h \<and> h ! q = h ! p" by simp
  from deepcopy_members_frame [OF assms(1) order_refl this r]
  show ?thesis by (simp add: eq contents_def)
qed

text \<open>
  One turn of the loop that completes: the acceleration and the update write into the
  members of the live bunch only, and the copy is taken at the end of the heap. So the
  recorded bunches keep their contents, the new one holds the state the live bunch has
  now, and nothing is shared.
\<close>

lemma loop_body_snapshots:
  assumes sep: "separate (heap_of s) protons (Data s)"
    and body: "loop_body I G fld protons s = Inr s'"
  shows "separate (heap_of s') protons (Data s') \<and>
         (\<exists>new. Data s' = Data s @ [new] \<and>
            contents (heap_of s') new = contents (heap_of s') protons) \<and>
         (\<forall>d\<in>set (Data s). contents (heap_of s') d = contents (heap_of s) d)"
proof -
  define h where "h = heap_of s"
  define dt where "dt = adaptiveStep h protons deltaT0 fld"
  define t where "t = time_of s + dt"
  from body obtain h1 where acc: "getAcceleration G fld h (bunch protons) t dt = Inr h1"
    by (auto simp add: loop_body_def Let_def h_def dt_def t_def split: sum.splits)
  from body acc obtain h2 lg where
    upd: "update I h1 (logged_of s) protons dt fld t selected_method = (h2, lg, None)"
    by (auto simp add: loop_body_def Let_def h_def dt_def t_def split: prod.splits option.splits)
  obtain h3 temp where cp: "deepcopy h2 protons = (h3, temp)"
    by (cases "deepcopy h2 protons")
  from body acc upd cp have s': "heap_of s' = h3" "Data s' = Data s @ [temp]"
    by (auto simp add: loop_body_def Let_def h_def dt_def t_def)
  from sep have live: "\<forall>p\<in>set (bunch protons). p < length h"
    and snaps: "\<forall>d\<in>set (Data s). \<forall>q\<in>set (bunch d). q < length h \<and> q \<notin> set (bunch protons)"
    by (simp_all add: separate_def h_def)
  from getAcceleration_frame [OF acc]
  have f1: "length h1 = length h" "\<forall>a. a \<notin> set (bunch protons) \<longrightarrow> h1 ! a = h ! a" by simp_all
  from update_frame [OF upd]
  have f2: "length h2 = length h1" "\<forall>a. a \<notin> set (bunch protons) \<longrightarrow> h2 ! a = h1 ! a" by simp_all
  have live2: "\<forall>p\<in>set (bunch protons). p < length h2" using live f1(1) f2(1) by simp
  from deepcopy_frame [OF live2 cp]
  have f3: "length h2 \<le> length h3" "\<forall>a<length h2. h3 ! a = h2 ! a"
    "\<forall>q\<in>set (bunch temp). length h2 \<le> q \<and> q < length h3"
    "contents h3 temp = contents h2 protons"
    by simp_all
  have len: "length h2 = length h" using f1(1) f2(1) by simp
  have kept: "h3 ! q = h ! q" if "q < length h" and "q \<notin> set (bunch protons)" for q
    using that f1(2) f2(2) f3(2) len by simp
  have old: "contents h3 d = contents h d" if "d \<in> set (Data s)" for d
    using snaps that kept by (simp add: contents_def)
  have "contents h3 protons = contents h2 protons"
    using live2 f3(2) by (simp add: contents_def)
  then have new: "contents h3 temp = contents h3 protons" using f3(4) by simp
  have "separate h3 protons (Data s @ [temp])"
    unfolding separate_def
  proof (intro conjI ballI)
    fix p assume "p \<in> set (bunch protons)"
    then show "p < length h3" using live2 f3(1) by fastforce
  next
    fix d q assume d: "d \<in> set (Data s @ [temp])" and q: "q \<in> set (bunch d)"
    show "q < length h3"
    proof (cases "d = temp")
      case True
      then show ?thesis using q f3(3) by simp
    next
      case False
      then have "d \<in> set (Data s)" using d by simp
      then have "q < length h" using snaps q by simp
      then show ?thesis using len f3(1) by simp
    qed
    show "q \<notin> set (bunch protons)"
    proof (cases "d = temp")
      case True
      then have "length h2 \<le> q" using q f3(3) by simp
      then show ?thesis using live2 by fastforce
    next
      case False
      then have "d \<in> set (Data s)" using d by simp
      then show ?thesis using snaps q by simp
    qed
  qed
  then show ?thesis
    using new old by (auto simp add: s' h_def)
qed

text \<open>Over any number of further turns.\<close>

lemma loop_steps_snapshots:
  assumes "rtranclp (loop_step I G fld protons) s1 s2"
    and "separate (heap_of s1) protons (Data s1)"
  shows "separate (heap_of s2) protons (Data s2) \<and>
         take (length (Data s1)) (Data s2) = Data s1 \<and>
         (\<forall>d\<in>set (Data s1). contents (heap_of s2) d = contents (heap_of s1) d)"
  using assms
proof (induction rule: rtranclp_induct)
  case base
  then show ?case by simp
next
  case (step y z)
  from step.IH [OF step.prems]
  have sep: "separate (heap_of y) protons (Data y)"
    and tk: "take (length (Data s1)) (Data y) = Data s1"
    and same: "\<forall>d\<in>set (Data s1). contents (heap_of y) d = contents (heap_of s1) d"
    by simp_all
  from step.hyps(2) have body: "loop_body I G fld protons y = Inr z"
    by (simp add: loop_step_def)
  from loop_body_snapshots [OF sep body] obtain new where
    sepz: "separate (heap_of z) protons (Data z)"
    and dz: "Data z = Data y @ [new]"
    and keep: "\<forall>d\<in>set (Data y). contents (heap_of z) d = contents (heap_of y) d"
    by auto
  have le: "length (Data s1) \<le> length (Data y)"
    using arg_cong [OF tk, of length] by simp
  have sub: "set (Data s1) \<subseteq> set (Data y)"
    using tk by (metis set_take_subset)
  have "take (length (Data s1)) (Data z) = Data s1"
    using tk le by (simp add: dz)
  moreover have "\<forall>d\<in>set (Data s1). contents (heap_of z) d = contents (heap_of s1) d"
    using same keep sub by auto
  ultimately show ?case using sepz by simp
qed

text \<open>The state before the loop has one recorded bunch and nothing shared.\<close>

lemma initial_driver_separate:
  assumes "\<forall>p\<in>set (bunch protons). p < length h"
  shows "separate (heap_of (initial_driver h protons)) protons (Data (initial_driver h protons))"
proof -
  obtain h' c where cp: "deepcopy h protons = (h', c)" by (cases "deepcopy h protons")
  from deepcopy_frame [OF assms cp]
  have "length h \<le> length h'" and "\<forall>q\<in>set (bunch c). length h \<le> q \<and> q < length h'"
    by simp_all
  then have "separate h' protons [c]"
    using assms by (fastforce simp add: separate_def)
  then show ?thesis by (simp add: initial_driver_def cp)
qed

text \<open>A run of the loop that ends without an exception is a sequence of such turns.\<close>

lemma simulation_loop_result:
  assumes "simulation_loop I G fld protons s = Some r"
  shows "\<forall>s'. r = Inr s' \<longrightarrow> rtranclp (loop_step I G fld protons) s s'"
proof (rule simulation_loop.raw_induct
    [where P = "\<lambda>I G fld protons s r.
       \<forall>s'. r = Inr s' \<longrightarrow> rtranclp (loop_step I G fld protons) s s'", OF _ assms])
  fix loop :: "('a, 'b EMField_scheme) integrators
     \<Rightarrow> ('b EMField_scheme \<Rightarrow> 'a particle list \<Rightarrow> real \<Rightarrow> real \<Rightarrow> error + 'a particle list)
     \<Rightarrow> 'b EMField_scheme \<Rightarrow> Bunch \<Rightarrow> 'a driver \<Rightarrow> (error + 'a driver) option"
  fix I G fld protons s r
  assume IH: "\<And>I G fld protons s r. loop I G fld protons s = Some r \<Longrightarrow>
       \<forall>s'. r = Inr s' \<longrightarrow> rtranclp (loop_step I G fld protons) s s'"
    and eq: "(if time_of s \<le> duration then
        (case loop_body I G fld protons s of
           Inl e \<Rightarrow> Some (Inl e)
         | Inr s' \<Rightarrow> loop I G fld protons s')
      else Some (Inr s)) = Some r"
  show "\<forall>s'. r = Inr s' \<longrightarrow> rtranclp (loop_step I G fld protons) s s'"
  proof (intro allI impI)
    fix s' assume r: "r = Inr s'"
    show "rtranclp (loop_step I G fld protons) s s'"
    proof (cases "time_of s \<le> duration")
      case False
      then show ?thesis using eq r by simp
    next
      case True
      show ?thesis
      proof (cases "loop_body I G fld protons s")
        case (Inl e)
        then show ?thesis using eq r True by simp
      next
        case (Inr s1)
        then have "loop I G fld protons s1 = Some r" using eq True by simp
        from IH [OF this] r have "rtranclp (loop_step I G fld protons) s1 s'" by simp
        moreover have "loop_step I G fld protons s s1" using True Inr by (simp add: loop_step_def)
        ultimately show ?thesis by (rule converse_rtranclp_into_rtranclp [rotated])
      qed
    qed
  qed
qed

lemma simulation_loop_steps:
  "simulation_loop I G fld protons s = Some (Inr s') \<Longrightarrow>
   rtranclp (loop_step I G fld protons) s s'"
  using simulation_loop_result by blast

text \<open>
  A turn of the loop from a state without aliasing, followed by any number of turns.
\<close>

lemma snapshots_turn:
  assumes "separate (heap_of s) protons (Data s)"
    and "loop_step I G fld protons s s1"
    and "rtranclp (loop_step I G fld protons) s1 s2"
  shows "length (Data s1) = Suc (length (Data s)) \<and>
         contents (heap_of s1) (last (Data s1)) = contents (heap_of s1) protons \<and>
         take (length (Data s1)) (Data s2) = Data s1 \<and>
         (\<forall>d\<in>set (Data s1).
            contents (heap_of s2) d = contents (heap_of s1) d \<and>
            set (bunch d) \<inter> set (bunch protons) = {})"
proof -
  from assms(2) have body: "loop_body I G fld protons s = Inr s1"
    by (simp add: loop_step_def)
  from loop_body_snapshots [OF assms(1) body] obtain new where
    sep1: "separate (heap_of s1) protons (Data s1)"
    and d1: "Data s1 = Data s @ [new]"
    and new: "contents (heap_of s1) new = contents (heap_of s1) protons"
    by auto
  from loop_steps_snapshots [OF assms(3) sep1]
  have tk: "take (length (Data s1)) (Data s2) = Data s1"
    and same: "\<forall>d\<in>set (Data s1). contents (heap_of s2) d = contents (heap_of s1) d"
    by simp_all
  have "\<forall>d\<in>set (Data s1). set (bunch d) \<inter> set (bunch protons) = {}"
    using sep1 by (auto simp add: separate_def)
  then show ?thesis using d1 new tk same by simp
qed

text \<open>
  C9. Every snapshot that the loop appends is an independent copy of the bunch at that
  step. Start the driver on a live bunch whose members are objects of the heap. Let the
  loop have reached the state \<open>s\<close>, let one more turn take \<open>s\<close> to \<open>s1\<close>, and let any
  number of further turns lead to \<open>s2\<close>. The turn appends one snapshot, which holds the
  state the live bunch has in \<open>s1\<close>; the series of \<open>s2\<close> begins with the series of
  \<open>s1\<close>; and every snapshot of \<open>s1\<close>, the initial one included, has in \<open>s2\<close> the
  contents it has in \<open>s1\<close>, whatever the later accelerations and updates did to the live
  bunch, and shares no object with it.
\<close>

theorem snapshots_independent:
  assumes "\<forall>p\<in>set (bunch protons). p < length h"
    and "rtranclp (loop_step I G fld protons) (initial_driver h protons) s"
    and "loop_step I G fld protons s s1"
    and "rtranclp (loop_step I G fld protons) s1 s2"
  shows "length (Data s1) = Suc (length (Data s)) \<and>
         contents (heap_of s1) (last (Data s1)) = contents (heap_of s1) protons \<and>
         take (length (Data s1)) (Data s2) = Data s1 \<and>
         (\<forall>d\<in>set (Data s1).
            contents (heap_of s2) d = contents (heap_of s1) d \<and>
            set (bunch d) \<inter> set (bunch protons) = {})"
proof -
  have "separate (heap_of (initial_driver h protons)) protons (Data (initial_driver h protons))"
    using assms(1) by (rule initial_driver_separate)
  from loop_steps_snapshots [OF assms(2) this]
  have "separate (heap_of s) protons (Data s)" by simp
  then show ?thesis using assms(3) assms(4) by (rule snapshots_turn)
qed

lemma ex_initial_driver: "initial_driver ex_heap ex_A = ex_s0"
  by (simp add: initial_driver_def deepcopy_def ex_heap_def ex_A_def ex_s0_def)

lemma ex_loop_body_0: "loop_body ex_integrators ex_G ex_field ex_A ex_s0 = Inr ex_s1"
  by (simp add: loop_body_def adaptiveStep_def getAcceleration_def update_def deepcopy_def
      selected_method_def deltaT0_def ex_integrators_def ex_G_def ex_field_def ex_A_def
      ex_s0_def ex_s1_def kick_def drift_def Let_def)

lemma ex_loop_body_1: "loop_body ex_integrators ex_G ex_field ex_A ex_s1 = Inr ex_s2"
  by (simp add: loop_body_def adaptiveStep_def getAcceleration_def update_def deepcopy_def
      selected_method_def deltaT0_def ex_integrators_def ex_G_def ex_field_def ex_A_def
      ex_s1_def ex_s2_def kick_def drift_def Let_def)

text \<open>
  Two turns of the loop on the example bunch. The snapshot taken in the first turn
  still shows the particle where it was after that turn, while the live particle has
  moved on.
\<close>

theorem snapshots_independent_witness:
  "list_all (\<lambda>p. p < length ex_heap) (bunch ex_A) \<and>
   initial_driver ex_heap ex_A = ex_s0 \<and>
   loop_step ex_integrators ex_G ex_field ex_A ex_s0 ex_s1 \<and>
   rtranclp (loop_step ex_integrators ex_G ex_field ex_A) ex_s1 ex_s2 \<and>
   length (Data ex_s1) = 2 \<and>
   take 2 (Data ex_s2) = Data ex_s1 \<and>
   contents (heap_of ex_s1) (Data ex_s1 ! 1) = contents (heap_of ex_s1) ex_A \<and>
   contents (heap_of ex_s2) (Data ex_s1 ! 1) = contents (heap_of ex_s1) (Data ex_s1 ! 1) \<and>
   contents (heap_of ex_s2) (Data ex_s1 ! 1) \<noteq> contents (heap_of ex_s2) ex_A"
proof -
  have valid: "\<forall>p\<in>set (bunch ex_A). p < length ex_heap"
    by (simp add: ex_A_def ex_heap_def)
  have start: "rtranclp (loop_step ex_integrators ex_G ex_field ex_A)
      (initial_driver ex_heap ex_A) ex_s0"
    by (simp add: ex_initial_driver)
  have t0: "time_of ex_s0 \<le> duration" by (simp add: ex_s0_def duration_def)
  have t1: "time_of ex_s1 \<le> duration" by (simp add: ex_s1_def duration_def)
  have st0: "loop_step ex_integrators ex_G ex_field ex_A ex_s0 ex_s1"
    using t0 ex_loop_body_0 by (simp add: loop_step_def)
  have "loop_step ex_integrators ex_G ex_field ex_A ex_s1 ex_s2"
    using t1 ex_loop_body_1 by (simp add: loop_step_def)
  then have st1: "rtranclp (loop_step ex_integrators ex_G ex_field ex_A) ex_s1 ex_s2"
    by (rule r_into_rtranclp)
  have mem: "Data ex_s1 ! 1 \<in> set (Data ex_s1)" and l: "last (Data ex_s1) = Data ex_s1 ! 1"
    by (simp_all add: ex_s1_def)
  have moved: "contents (heap_of ex_s2) (Data ex_s1 ! 1) \<noteq> contents (heap_of ex_s2) ex_A"
    by (simp add: contents_def ex_s1_def ex_s2_def ex_A_def)
  have concl: "length (Data ex_s1) = Suc (length (Data ex_s0)) \<and>
         contents (heap_of ex_s1) (last (Data ex_s1)) = contents (heap_of ex_s1) ex_A \<and>
         take (length (Data ex_s1)) (Data ex_s2) = Data ex_s1 \<and>
         (\<forall>d\<in>set (Data ex_s1).
            contents (heap_of ex_s2) d = contents (heap_of ex_s1) d \<and>
            set (bunch d) \<inter> set (bunch ex_A) = {})"
    by (rule snapshots_independent [OF valid start st0 st1])
  have len: "length (Data ex_s1) = 2" by (simp add: ex_s1_def)
  have a0: "contents (heap_of ex_s1) (last (Data ex_s1)) = contents (heap_of ex_s1) ex_A"
    using concl by blast
  have a: "contents (heap_of ex_s1) (Data ex_s1 ! 1) = contents (heap_of ex_s1) ex_A"
    using a0 unfolding l .
  have b0: "take (length (Data ex_s1)) (Data ex_s2) = Data ex_s1"
    using concl by blast
  have b: "take 2 (Data ex_s2) = Data ex_s1"
    using b0 unfolding len .
  have c: "contents (heap_of ex_s2) (Data ex_s1 ! 1) = contents (heap_of ex_s1) (Data ex_s1 ! 1)"
    using concl mem by blast
  have v: "list_all (\<lambda>p. p < length ex_heap) (bunch ex_A)"
    by (simp add: ex_A_def ex_heap_def)
  show ?thesis
    using v ex_initial_driver st0 st1 len a b c moved by blast
qed

end
